theory Spec2Isabelle
  imports Main "HOL-Library.AList" "HOL-Library.Sublist" "HOL-Library.Word"
begin

section \<open>Errors\<close>

text \<open>
  A Go \<^verbatim>\<open>error\<close> value. Errors produced by collaborators outside the handlers (the
  datastore, the Kubernetes client, the Helm library, the file service) are opaque values
  of type \<open>'x\<close>; \<^verbatim>\<open>errors.New(msg)\<close> is \<open>ErrorString msg\<close>; a
  \<^verbatim>\<open>*httperror.HandlerError\<close> carries its class, its message and the wrapped error
  (\<open>None\<close> for \<^verbatim>\<open>nil\<close>).
\<close>

datatype errorClass = BadRequest | Forbidden | NotFound | InternalServerError

datatype 'x error =
    Opaque 'x
  | ErrorString string
  | HandlerError errorClass string "'x error option"

section \<open>Set reconciler (endpoint\_registry\_access.go, lines 165-186)\<close>

text \<open>
  \<^verbatim>\<open>type stringSet map[string]bool\<close>: a Go map, kept as an association list whose
  keys are distinct. \<open>lookupSet m el\<close> is the Go expression \<^verbatim>\<open>m[el]\<close>, which is
  \<^verbatim>\<open>false\<close> for a key the map does not hold; \<open>AList.update el True m\<close> is the
  statement \<^verbatim>\<open>m[el] = true\<close>.
\<close>

type_synonym stringSet = "(string \<times> bool) list"

definition lookupSet :: "stringSet \<Rightarrow> string \<Rightarrow> bool" where
  "lookupSet m el = (case map_of m el of Some b \<Rightarrow> b | None \<Rightarrow> False)"

definition keysOf :: "stringSet \<Rightarrow> string set" where
  "keysOf m = fst ` set m"

text \<open>
  \<^verbatim>\<open>for el := range m\<close> visits every key of \<open>m\<close> exactly once, in an order the Go
  runtime picks anew. The runtime's choice is the parameter \<open>ord\<close>: the keys that
  \<open>ord m\<close> names are visited first, in that order, and the keys it leaves out follow.
  Every enumeration of the keys is the visiting order for some \<open>ord\<close>
  (lemma \<open>rangeKeys_any_order\<close>).
\<close>

type_synonym rangeOrder = "stringSet \<Rightarrow> string list"

definition rangeKeys :: "rangeOrder \<Rightarrow> stringSet \<Rightarrow> string list" where
  "rangeKeys ord m =
     (let ks = remdups (map fst m)
      in filter (\<lambda>k. k \<in> set ks) (remdups (ord m)) @ filter (\<lambda>k. k \<notin> set (ord m)) ks)"

definition toSet :: "string list \<Rightarrow> stringSet" where
  "toSet list = fold (\<lambda>el set. AList.update el True set) list []"

definition setDifference :: "rangeOrder \<Rightarrow> stringSet \<Rightarrow> stringSet \<Rightarrow> stringSet" where
  "setDifference ord setA setB =
     fold (\<lambda>el set. if \<not> lookupSet setB el then AList.update el True set else set)
       (rangeKeys ord setA) []"

section \<open>Access synchronizer (endpoint\_registry\_access.go, lines 136-163)\<close>

text \<open>
  The Kubernetes client is outside the handlers. It acts on a cluster state \<open>'c\<close>; each
  call returns the error (\<open>None\<close> for \<^verbatim>\<open>nil\<close>) and the cluster state it leaves.
  The model records every call it issues, with the result the client gave, in a trace.
\<close>

record ('r, 'c, 'x) KubeClient =
  DeleteRegistrySecret :: "'r \<Rightarrow> string \<Rightarrow> 'c \<Rightarrow> 'x error option \<times> 'c"
  CreateRegistrySecret :: "'r \<Rightarrow> string \<Rightarrow> 'c \<Rightarrow> 'x error option \<times> 'c"

datatype call = DeleteCall string | CreateCall string

type_synonym 'x trace = "(call \<times> 'x error option) list"

text \<open>Lines 148-153: the loop over \<^verbatim>\<open>namespacesToRemove\<close>, returning at the first error.\<close>

fun deleteLoop ::
  "('r, 'c, 'x) KubeClient \<Rightarrow> 'r \<Rightarrow> string list \<Rightarrow> 'x trace \<Rightarrow> 'c
     \<Rightarrow> 'x error option \<times> 'x trace \<times> 'c" where
  "deleteLoop cli registry [] tr c = (None, tr, c)"
| "deleteLoop cli registry (namespace # rest) tr c =
     (case DeleteRegistrySecret cli registry namespace c of
        (Some err, c') \<Rightarrow> (Some err, tr @ [(DeleteCall namespace, Some err)], c')
      | (None, c') \<Rightarrow> deleteLoop cli registry rest (tr @ [(DeleteCall namespace, None)]) c')"

text \<open>Lines 155-160: the loop over \<^verbatim>\<open>namespacesToAdd\<close>, returning at the first error.\<close>

fun createLoop ::
  "('r, 'c, 'x) KubeClient \<Rightarrow> 'r \<Rightarrow> string list \<Rightarrow> 'x trace \<Rightarrow> 'c
     \<Rightarrow> 'x error option \<times> 'x trace \<times> 'c" where
  "createLoop cli registry [] tr c = (None, tr, c)"
| "createLoop cli registry (namespace # rest) tr c =
     (case CreateRegistrySecret cli registry namespace c of
        (Some err, c') \<Rightarrow> (Some err, tr @ [(CreateCall namespace, Some err)], c')
      | (None, c') \<Rightarrow> createLoop cli registry rest (tr @ [(CreateCall namespace, None)]) c')"

text \<open>
  \<open>getKubeClient\<close> is the result of \<^verbatim>\<open>handler.K8sClientFactory.GetKubeClient(endpoint)\<close>.
  The result is the returned error, the trace of the calls issued and the cluster state.
\<close>

definition updateKubeAccess ::
  "rangeOrder \<Rightarrow> 'x error + ('r, 'c, 'x) KubeClient \<Rightarrow> 'r \<Rightarrow> string list \<Rightarrow> string list \<Rightarrow> 'c
     \<Rightarrow> 'x error option \<times> 'x trace \<times> 'c" where
  "updateKubeAccess ord getKubeClient registry oldNamespaces newNamespaces c =
     (let oldNamespacesSet = toSet oldNamespaces;
          newNamespacesSet = toSet newNamespaces;
          namespacesToRemove = setDifference ord oldNamespacesSet newNamespacesSet;
          namespacesToAdd = setDifference ord newNamespacesSet oldNamespacesSet
      in case getKubeClient of
           Inl err \<Rightarrow> (Some err, [], c)
         | Inr cli \<Rightarrow>
             (case deleteLoop cli registry (rangeKeys ord namespacesToRemove) [] c of
                (Some err, tr, c') \<Rightarrow> (Some err, tr, c')
              | (None, tr, c') \<Rightarrow>
                  createLoop cli registry (rangeKeys ord namespacesToAdd) tr c'))"

text \<open>
  What the client answers to a sequence of calls issued one after the other from the
  cluster state \<open>c\<close>: the errors, and the cluster state left.
\<close>

fun clientResponses ::
  "('r, 'c, 'x) KubeClient \<Rightarrow> 'r \<Rightarrow> call list \<Rightarrow> 'c \<Rightarrow> 'x error option list \<times> 'c" where
  "clientResponses cli registry [] c = ([], c)"
| "clientResponses cli registry (DeleteCall namespace # rest) c =
     (case DeleteRegistrySecret cli registry namespace c of
        (r, c') \<Rightarrow> (case clientResponses cli registry rest c' of (rs, c'') \<Rightarrow> (r # rs, c'')))"
| "clientResponses cli registry (CreateCall namespace # rest) c =
     (case CreateRegistrySecret cli registry namespace c of
        (r, c') \<Rightarrow> (case clientResponses cli registry rest c' of (rs, c'') \<Rightarrow> (r # rs, c'')))"

text \<open>
  A client on which the theorems are instantiated: the cluster state is the list of
  namespaces holding the secret, deleting the secret of \<^verbatim>\<open>ns2\<close> fails.
\<close>

definition demoClient :: "(unit, string list, nat) KubeClient" where
  "demoClient = \<lparr> DeleteRegistrySecret = (\<lambda>_ ns c. if ns = ''ns2'' then (Some (Opaque 7), c) else (None, removeAll ns c)),
                  CreateRegistrySecret = (\<lambda>_ ns c. (None, ns # c)) \<rparr>"

section \<open>Store capability interface\<close>

text \<open>
  The datastore is outside the handlers. A handler body reaches it only through the
  \<^verbatim>\<open>dataservices.DataStoreTx\<close> interface, which the direct store and a transaction both
  implement: a body is a program over that interface, \<open>Read k\<close> continuing with the
  aggregate or the error the handle returns, \<open>Write k v\<close> with the error of the write.
  \<open>run tx body h\<close> executes the body against the handle \<open>tx\<close>, whose state is \<open>h\<close>.
\<close>

datatype ('k, 'v, 'x, 'r) prog =
    Return 'r
  | Read 'k "'x error + 'v \<Rightarrow> ('k, 'v, 'x, 'r) prog"
  | Write 'k 'v "'x error option \<Rightarrow> ('k, 'v, 'x, 'r) prog"

record ('h, 'k, 'v, 'x) DataStoreTx =
  readAggregate :: "'k \<Rightarrow> 'h \<Rightarrow> 'x error + 'v"
  writeAggregate :: "'k \<Rightarrow> 'v \<Rightarrow> 'h \<Rightarrow> 'x error option \<times> 'h"

primrec run :: "('h, 'k, 'v, 'x) DataStoreTx \<Rightarrow> ('k, 'v, 'x, 'r) prog \<Rightarrow> 'h \<Rightarrow> 'r \<times> 'h" where
  "run tx (Return r) h = (r, h)"
| "run tx (Read k f) h = run tx (f (readAggregate tx k h)) h"
| "run tx (Write k v f) h = (case writeAggregate tx k v h of (e, h') \<Rightarrow> run tx (f e) h')"

text \<open>The writes a body issues, in order, each with the error the handle returned.\<close>

primrec writesOf ::
  "('h, 'k, 'v, 'x) DataStoreTx \<Rightarrow> ('k, 'v, 'x, 'r) prog \<Rightarrow> 'h \<Rightarrow> ('k \<times> 'v \<times> 'x error option) list" where
  "writesOf tx (Return r) h = []"
| "writesOf tx (Read k f) h = writesOf tx (f (readAggregate tx k h)) h"
| "writesOf tx (Write k v f) h =
     (case writeAggregate tx k v h of (e, h') \<Rightarrow> (k, v, e) # writesOf tx (f e) h')"

section \<open>Settings (settings\_update.go)\<close>

type_synonym byte = "8 word"

record 't TLSConfiguration =
  TLS :: bool
  TLSSkipVerify :: bool
  TLSCACertPath :: string
  TLSOther :: 't

record ('t, 'l) LDAPSettings =
  ReaderDN :: string
  Password :: string
  TLSConfig :: "'t TLSConfiguration"
  StartTLS :: bool
  LDAPOther :: 'l

record 'o OAuthSettings =
  ClientSecret :: string
  KubeSecretKey :: "byte list option"
  OAuthOther :: 'o

record InternalAuthSettings =
  RequiredPasswordLength :: int

record ('t, 'l, 'o) settingsUpdatePayload =
  LogoURL :: "string option"
  BlackListedLabels :: "(string \<times> string) list option"
  AuthenticationMethod :: "int option"
  InternalAuthSettings :: "InternalAuthSettings option"
  LDAPSettings :: "('t, 'l) LDAPSettings option"
  OAuthSettings :: "'o OAuthSettings option"
  SnapshotInterval :: "string option"
  TemplatesURL :: "string option"
  EdgeAgentCheckinInterval :: "int option"
  ShowKomposeBuildOption :: "bool option"
  EnableEdgeComputeFeatures :: "bool option"
  UserSessionTimeout :: "string option"
  KubeconfigExpiry :: "string option"
  EnableTelemetry :: "bool option"
  HelmRepositoryURL :: "string option"
  KubectlShellImage :: "string option"
  TrustOnFirstConnect :: "bool option"
  EnforceEdgeID :: "bool option"
  EdgePortainerURL :: "string option"

record ('t, 'l, 'o, 'z) Settings =
  LogoURL :: string
  BlackListedLabels :: "(string \<times> string) list"
  AuthenticationMethod :: int
  InternalAuthSettings :: InternalAuthSettings
  LDAPSettings :: "('t, 'l) LDAPSettings"
  OAuthSettings :: "'o OAuthSettings"
  SnapshotInterval :: string
  TemplatesURL :: string
  EdgeAgentCheckinInterval :: int
  ShowKomposeBuildOption :: bool
  EnableEdgeComputeFeatures :: bool
  UserSessionTimeout :: string
  KubeconfigExpiry :: string
  EnableTelemetry :: bool
  HelmRepositoryURL :: string
  KubectlShellImage :: string
  TrustOnFirstConnect :: bool
  EnforceEdgeID :: bool
  EdgePortainerURL :: string
  SettingsOther :: 'z

record ('t, 'l, 'o, 'z, 'x) Handler =
  IsDemo :: bool
  ValidateHelmRepositoryURL :: "string \<Rightarrow> 'x error option"
  SetSnapshotInterval :: "string \<Rightarrow> 'x error option"
  ParseDuration :: "string \<Rightarrow> int"
  GetPathForTLSFile :: string
  DeleteTLSFiles :: "'x error option"
  DefaultHelmRepositoryURL :: string
  ToLower :: "string \<Rightarrow> string"
  hideFields :: "('t, 'l, 'o, 'z) Settings \<Rightarrow> ('t, 'l, 'o, 'z) Settings"

datatype effect =
    ValidateHelmRepositoryURLCall string
  | SetSnapshotIntervalCall string
  | SetUserSessionDurationCall int
  | GetPathForTLSFileCall
  | DeleteTLSFilesCall

definition TrimSuffix :: "string \<Rightarrow> string \<Rightarrow> string" where
  "TrimSuffix s suf = (if suffix suf s then take (length s - length suf) s else s)"


text \<open>Lines 151-154: in demo mode the two payload fields are cleared before anything is merged.\<close>

definition suppressDemo ::
  "('t, 'l, 'o, 'z, 'x) Handler \<Rightarrow> ('t, 'l, 'o) settingsUpdatePayload \<Rightarrow> ('t, 'l, 'o) settingsUpdatePayload" where
  "suppressDemo handler payload =
     (if IsDemo handler
      then payload\<lparr>settingsUpdatePayload.EnableTelemetry := None, settingsUpdatePayload.LogoURL := None\<rparr>
      else payload)"

text \<open>Lines 156-170.\<close>

definition mergeHead ::
  "('t, 'l, 'o) settingsUpdatePayload \<Rightarrow> ('t, 'l, 'o, 'z) Settings \<Rightarrow> ('t, 'l, 'o, 'z) Settings" where
  "mergeHead payload settings =
     (let settings = (case settingsUpdatePayload.AuthenticationMethod payload of
                        None \<Rightarrow> settings | Some v \<Rightarrow> settings\<lparr>AuthenticationMethod := v\<rparr>);
          settings = (case settingsUpdatePayload.LogoURL payload of
                        None \<Rightarrow> settings | Some v \<Rightarrow> settings\<lparr>LogoURL := v\<rparr>);
          settings = (case settingsUpdatePayload.TemplatesURL payload of
                        None \<Rightarrow> settings | Some v \<Rightarrow> settings\<lparr>TemplatesURL := v\<rparr>);
          settings = (case settingsUpdatePayload.ShowKomposeBuildOption payload of
                        None \<Rightarrow> settings | Some v \<Rightarrow> settings\<lparr>ShowKomposeBuildOption := v\<rparr>)
      in settings)"

text \<open>
  Lines 172-188: the Helm repository URL. The result is the error or the settings, and the
  external calls made.
\<close>

definition mergeHelm ::
  "('t, 'l, 'o, 'z, 'x) Handler \<Rightarrow> ('t, 'l, 'o) settingsUpdatePayload \<Rightarrow> ('t, 'l, 'o, 'z) Settings
     \<Rightarrow> ('x error + ('t, 'l, 'o, 'z) Settings) \<times> effect list" where
  "mergeHelm handler payload settings =
     (case settingsUpdatePayload.HelmRepositoryURL payload of
        None \<Rightarrow> (Inr settings, [])
      | Some url \<Rightarrow>
          if url \<noteq> [] then
            (let newHelmRepo = TrimSuffix (ToLower handler url) ''/'' in
             if newHelmRepo \<noteq> HelmRepositoryURL settings
                \<and> newHelmRepo \<noteq> DefaultHelmRepositoryURL handler
             then (case ValidateHelmRepositoryURL handler url of
                     Some err \<Rightarrow>
                       (Inl (HandlerError BadRequest
                               ''Invalid Helm repository URL. Must correspond to a valid URL format''
                               (Some err)),
                        [ValidateHelmRepositoryURLCall url])
                   | None \<Rightarrow>
                       (Inr (settings\<lparr>HelmRepositoryURL := newHelmRepo\<rparr>),
                        [ValidateHelmRepositoryURLCall url]))
             else (Inr (settings\<lparr>HelmRepositoryURL := newHelmRepo\<rparr>), []))
          else (Inr (settings\<lparr>HelmRepositoryURL := []\<rparr>), []))"

text \<open>Lines 198-213: the LDAP block, keeping the stored reader DN and password when the payload's are empty.\<close>

definition mergeLDAP ::
  "('t, 'l, 'o) settingsUpdatePayload \<Rightarrow> ('t, 'l, 'o, 'z) Settings \<Rightarrow> ('t, 'l, 'o, 'z) Settings" where
  "mergeLDAP payload settings =
     (case settingsUpdatePayload.LDAPSettings payload of
        None \<Rightarrow> settings
      | Some payloadLDAP \<Rightarrow>
          (let ldapReaderDN = ReaderDN (LDAPSettings settings);
               ldapPassword = LDAPSettings.Password (LDAPSettings settings);
               ldapReaderDN = (if ReaderDN payloadLDAP \<noteq> [] then ReaderDN payloadLDAP else ldapReaderDN);
               ldapPassword = (if LDAPSettings.Password payloadLDAP \<noteq> []
                               then LDAPSettings.Password payloadLDAP else ldapPassword)
           in settings\<lparr>LDAPSettings :=
                payloadLDAP\<lparr>ReaderDN := ldapReaderDN, LDAPSettings.Password := ldapPassword\<rparr>\<rparr>))"

text \<open>Lines 215-228: the OAuth block, keeping the stored client secret and Kube secret key.\<close>

definition mergeOAuth ::
  "('t, 'l, 'o) settingsUpdatePayload \<Rightarrow> ('t, 'l, 'o, 'z) Settings \<Rightarrow> ('t, 'l, 'o, 'z) Settings" where
  "mergeOAuth payload settings =
     (case settingsUpdatePayload.OAuthSettings payload of
        None \<Rightarrow> settings
      | Some payloadOAuth \<Rightarrow>
          (let clientSecret = ClientSecret payloadOAuth;
               clientSecret = (if clientSecret = [] then ClientSecret (OAuthSettings settings)
                               else clientSecret);
               kubeSecret = KubeSecretKey payloadOAuth;
               kubeSecret = (if kubeSecret = None then KubeSecretKey (OAuthSettings settings)
                             else kubeSecret)
           in settings\<lparr>OAuthSettings :=
                payloadOAuth\<lparr>ClientSecret := clientSecret, KubeSecretKey := kubeSecret\<rparr>\<rparr>))"

text \<open>Lines 190-244.\<close>

definition mergeMiddle ::
  "('t, 'l, 'o) settingsUpdatePayload \<Rightarrow> ('t, 'l, 'o, 'z) Settings \<Rightarrow> ('t, 'l, 'o, 'z) Settings" where
  "mergeMiddle payload settings =
     (let settings = (case settingsUpdatePayload.BlackListedLabels payload of
                        None \<Rightarrow> settings | Some v \<Rightarrow> settings\<lparr>BlackListedLabels := v\<rparr>);
          settings = (case settingsUpdatePayload.InternalAuthSettings payload of
                        None \<Rightarrow> settings
                      | Some v \<Rightarrow>
                          settings\<lparr>InternalAuthSettings :=
                            (InternalAuthSettings settings)
                              \<lparr>RequiredPasswordLength := RequiredPasswordLength v\<rparr>\<rparr>);
          settings = mergeLDAP payload settings;
          settings = mergeOAuth payload settings;
          settings = (case settingsUpdatePayload.EnableEdgeComputeFeatures payload of
                        None \<Rightarrow> settings | Some v \<Rightarrow> settings\<lparr>EnableEdgeComputeFeatures := v\<rparr>);
          settings = (case settingsUpdatePayload.TrustOnFirstConnect payload of
                        None \<Rightarrow> settings | Some v \<Rightarrow> settings\<lparr>TrustOnFirstConnect := v\<rparr>);
          settings = (case settingsUpdatePayload.EnforceEdgeID payload of
                        None \<Rightarrow> settings | Some v \<Rightarrow> settings\<lparr>EnforceEdgeID := v\<rparr>);
          settings = (case settingsUpdatePayload.EdgePortainerURL payload of
                        None \<Rightarrow> settings | Some v \<Rightarrow> settings\<lparr>EdgePortainerURL := v\<rparr>)
      in settings)"

text \<open>Lines 290-294.\<close>

definition updateSnapshotInterval ::
  "('t, 'l, 'o, 'z, 'x) Handler \<Rightarrow> ('t, 'l, 'o, 'z) Settings \<Rightarrow> string
     \<Rightarrow> 'x error option \<times> ('t, 'l, 'o, 'z) Settings \<times> effect list" where
  "updateSnapshotInterval handler settings snapshotInterval =
     (SetSnapshotInterval handler snapshotInterval,
      settings\<lparr>SnapshotInterval := snapshotInterval\<rparr>,
      [SetSnapshotIntervalCall snapshotInterval])"

text \<open>Lines 246-251.\<close>

definition mergeSnapshot ::
  "('t, 'l, 'o, 'z, 'x) Handler \<Rightarrow> ('t, 'l, 'o) settingsUpdatePayload \<Rightarrow> ('t, 'l, 'o, 'z) Settings
     \<Rightarrow> ('x error + ('t, 'l, 'o, 'z) Settings) \<times> effect list" where
  "mergeSnapshot handler payload settings =
     (case settingsUpdatePayload.SnapshotInterval payload of
        None \<Rightarrow> (Inr settings, [])
      | Some v \<Rightarrow>
          if v \<noteq> SnapshotInterval settings then
            (case updateSnapshotInterval handler settings v of
               (Some err, settings', calls) \<Rightarrow>
                 (Inl (HandlerError InternalServerError ''Unable to update snapshot interval''
                         (Some err)), calls)
             | (None, settings', calls) \<Rightarrow> (Inr settings', calls))
          else (Inr settings, []))"

text \<open>Lines 253-271.\<close>

definition mergeTail ::
  "('t, 'l, 'o, 'z, 'x) Handler \<Rightarrow> ('t, 'l, 'o) settingsUpdatePayload \<Rightarrow> ('t, 'l, 'o, 'z) Settings
     \<Rightarrow> ('t, 'l, 'o, 'z) Settings \<times> effect list" where
  "mergeTail handler payload settings =
     (let settings = (case settingsUpdatePayload.EdgeAgentCheckinInterval payload of
                        None \<Rightarrow> settings | Some v \<Rightarrow> settings\<lparr>EdgeAgentCheckinInterval := v\<rparr>);
          settings = (case settingsUpdatePayload.KubeconfigExpiry payload of
                        None \<Rightarrow> settings | Some v \<Rightarrow> settings\<lparr>KubeconfigExpiry := v\<rparr>);
          (settings, calls) =
             (case settingsUpdatePayload.UserSessionTimeout payload of
                None \<Rightarrow> (settings, [])
              | Some v \<Rightarrow>
                  (let userSessionDuration = ParseDuration handler v
                   in (settings\<lparr>UserSessionTimeout := v\<rparr>,
                       [SetUserSessionDurationCall userSessionDuration])));
          settings = (case settingsUpdatePayload.EnableTelemetry payload of
                        None \<Rightarrow> settings | Some v \<Rightarrow> settings\<lparr>EnableTelemetry := v\<rparr>)
      in (settings, calls))"

text \<open>Lines 296-311.\<close>

definition updateTLS ::
  "('t, 'l, 'o, 'z, 'x) Handler \<Rightarrow> ('t, 'l, 'o, 'z) Settings
     \<Rightarrow> ('x error + ('t, 'l, 'o, 'z) Settings) \<times> effect list" where
  "updateTLS handler settings =
     (let ldap = LDAPSettings settings; tls = TLSConfig ldap in
      if (TLS tls \<or> StartTLS ldap) \<and> \<not> TLSSkipVerify tls then
        (let caCertPath = GetPathForTLSFile handler
         in (Inr (settings\<lparr>LDAPSettings := ldap\<lparr>TLSConfig := tls\<lparr>TLSCACertPath := caCertPath\<rparr>\<rparr>\<rparr>),
             [GetPathForTLSFileCall]))
      else
        (let settings' = settings\<lparr>LDAPSettings := ldap\<lparr>TLSConfig := tls\<lparr>TLSCACertPath := []\<rparr>\<rparr>\<rparr>
         in case DeleteTLSFiles handler of
              Some err \<Rightarrow>
                (Inl (HandlerError InternalServerError ''Unable to remove TLS files from disk''
                        (Some err)), [DeleteTLSFilesCall])
            | None \<Rightarrow> (Inr settings', [DeleteTLSFilesCall])))"

text \<open>
  Lines 151-280 of \<^verbatim>\<open>updateSettings\<close>: everything between reading the settings and
  persisting them. An early \<^verbatim>\<open>return nil, err\<close> is the \<open>Inl\<close> result; the external calls
  made up to that point are kept.
\<close>

definition mergeSettings ::
  "('t, 'l, 'o, 'z, 'x) Handler \<Rightarrow> ('t, 'l, 'o) settingsUpdatePayload \<Rightarrow> ('t, 'l, 'o, 'z) Settings
     \<Rightarrow> ('x error + ('t, 'l, 'o, 'z) Settings) \<times> effect list" where
  "mergeSettings handler payload0 settings0 =
     (let payload = suppressDemo handler payload0;
          settings = mergeHead payload settings0
      in case mergeHelm handler payload settings of
           (Inl err, calls1) \<Rightarrow> (Inl err, calls1)
         | (Inr settings, calls1) \<Rightarrow>
             (let settings = mergeMiddle payload settings
              in case mergeSnapshot handler payload settings of
                   (Inl err, calls2) \<Rightarrow> (Inl err, calls1 @ calls2)
                 | (Inr settings, calls2) \<Rightarrow>
                     (case mergeTail handler payload settings of
                        (settings, calls3) \<Rightarrow>
                          (case updateTLS handler settings of
                             (Inl err, calls4) \<Rightarrow> (Inl err, calls1 @ calls2 @ calls3 @ calls4)
                           | (Inr settings, calls4) \<Rightarrow>
                               (Inr (case settingsUpdatePayload.KubectlShellImage payload of
                                       None \<Rightarrow> settings
                                     | Some v \<Rightarrow> settings\<lparr>KubectlShellImage := v\<rparr>),
                                calls1 @ calls2 @ calls3 @ calls4)))))"

text \<open>
  \<^verbatim>\<open>updateSettings\<close> (lines 145-288), a program over the store interface: the settings
  are read with \<^verbatim>\<open>tx.Settings().Settings()\<close>, merged, and persisted with
  \<^verbatim>\<open>tx.Settings().UpdateSettings(settings)\<close>. The single settings aggregate has the key
  \<open>()\<close>.
\<close>

definition updateSettings ::
  "('t, 'l, 'o, 'z, 'x) Handler \<Rightarrow> ('t, 'l, 'o) settingsUpdatePayload
     \<Rightarrow> (unit, ('t, 'l, 'o, 'z) Settings, 'x,
          ('x error + ('t, 'l, 'o, 'z) Settings) \<times> effect list) prog" where
  "updateSettings handler payload =
     Read () (\<lambda>r. case r of
        Inl err \<Rightarrow>
          Return (Inl (HandlerError InternalServerError
                         ''Unable to retrieve the settings from the database'' (Some err)), [])
      | Inr settings \<Rightarrow>
          (case mergeSettings handler payload settings of
             (Inl err, calls) \<Rightarrow> Return (Inl err, calls)
           | (Inr settings', calls) \<Rightarrow>
               Write () settings' (\<lambda>w. case w of
                  Some err \<Rightarrow>
                    Return (Inl (HandlerError InternalServerError
                                   ''Unable to persist settings changes inside the database''
                                   (Some err)), calls)
                | None \<Rightarrow> Return (Inr settings', calls))))"


section \<open>Transactional mutation executor\<close>

text \<open>
  Modelled from the spec: the datastore itself (\<^verbatim>\<open>handler.DataStore\<close>, package
  \<^verbatim>\<open>dataservices\<close>) and its \<^verbatim>\<open>UpdateTx\<close> are not among the sources. Spec 6: the
  store is an opaque key-addressed store with \<^verbatim>\<open>readAggregate\<close> (returning the value
  or a not-found error) and \<^verbatim>\<open>writeAggregate\<close>, offered in a direct and a
  transactional flavour with the same capability. Spec 4.4: the direct mode invokes the
  body once with a direct, non-transactional handle; the transactional mode opens an
  atomic transaction, invokes the body with a transactional handle, commits if the body
  returns success and rolls back if it returns an error, the error being returned
  unchanged.

  The store is a finite map; \<open>notFound\<close> is the store's not-found error. The direct
  handle acts on the store itself. The transaction keeps the store it was opened on and
  the writes made so far: a read sees the transaction's own writes first, commit applies
  the writes to the store, rollback drops them.
\<close>

type_synonym ('k, 'v) store = "'k \<rightharpoonup> 'v"

definition directHandle :: "'x error \<Rightarrow> (('k, 'v) store, 'k, 'v, 'x) DataStoreTx" where
  "directHandle notFound =
     \<lparr> readAggregate = (\<lambda>k s. case s k of None \<Rightarrow> Inl notFound | Some v \<Rightarrow> Inr v),
       writeAggregate = (\<lambda>k v s. (None, s(k \<mapsto> v))) \<rparr>"

definition txHandle ::
  "'x error \<Rightarrow> (('k, 'v) store \<times> ('k, 'v) store, 'k, 'v, 'x) DataStoreTx" where
  "txHandle notFound =
     \<lparr> readAggregate = (\<lambda>k (base, pending).
          case pending k of
            Some v \<Rightarrow> Inr v
          | None \<Rightarrow> (case base k of None \<Rightarrow> Inl notFound | Some v \<Rightarrow> Inr v)),
       writeAggregate = (\<lambda>k v (base, pending). (None, (base, pending(k \<mapsto> v)))) \<rparr>"

text \<open>
  \<open>errOf\<close> is what the closure handed to \<^verbatim>\<open>UpdateTx\<close> returns as its error, read off
  the body's result \<open>r\<close>; the result itself is what the closure leaves in the variables
  it captured.
\<close>

definition UpdateTx ::
  "'x error \<Rightarrow> ('r \<Rightarrow> 'x error option) \<Rightarrow> ('k, 'v, 'x, 'r) prog \<Rightarrow> ('k, 'v) store
     \<Rightarrow> 'r \<times> ('k, 'v) store" where
  "UpdateTx notFound errOf body s =
     (case run (txHandle notFound) body (s, Map.empty) of
        (r, (base, pending)) \<Rightarrow>
          (case errOf r of
             None \<Rightarrow> (r, base ++ pending)
           | Some err \<Rightarrow> (r, s)))"

text \<open>
  The executor of \<^verbatim>\<open>settingsUpdate\<close> (lines 122-130) and of
  \<^verbatim>\<open>endpointRegistryAccess\<close> (lines 54-60): \<open>noTx\<close> is
  \<^verbatim>\<open>featureflags.IsEnabled(portainer.FeatureNoTx)\<close>; the same body is run in both
  branches.
\<close>

definition execute ::
  "'x error \<Rightarrow> bool \<Rightarrow> ('r \<Rightarrow> 'x error option) \<Rightarrow> ('k, 'v, 'x, 'r) prog \<Rightarrow> ('k, 'v) store
     \<Rightarrow> 'r \<times> ('k, 'v) store" where
  "execute notFound noTx errOf body s =
     (if noTx then run (directHandle notFound) body s
      else UpdateTx notFound errOf body s)"

text \<open>
  \<^verbatim>\<open>settingsUpdate\<close> (lines 115-143). \<open>decoded\<close> is the result of
  \<^verbatim>\<open>request.DecodeAndValidateJSONPayload\<close>; lines 132-139 return a
  \<^verbatim>\<open>*httperror.HandlerError\<close> as it is and wrap any other error.
\<close>

definition settingsErr :: "('x error + 's) \<times> effect list \<Rightarrow> 'x error option" where
  "settingsErr r = (case fst r of Inl err \<Rightarrow> Some err | Inr settings \<Rightarrow> None)"

definition settingsUpdate ::
  "('t, 'l, 'o, 'z, 'x) Handler \<Rightarrow> 'x error \<Rightarrow> bool \<Rightarrow> 'x error + ('t, 'l, 'o) settingsUpdatePayload
     \<Rightarrow> (unit, ('t, 'l, 'o, 'z) Settings) store
     \<Rightarrow> (('x error + ('t, 'l, 'o, 'z) Settings) \<times> effect list)
         \<times> (unit, ('t, 'l, 'o, 'z) Settings) store" where
  "settingsUpdate handler notFound noTx decoded s =
     (case decoded of
        Inl err \<Rightarrow> ((Inl (HandlerError BadRequest ''Invalid request payload'' (Some err)), []), s)
      | Inr payload \<Rightarrow>
          (case execute notFound noTx settingsErr (updateSettings handler payload) s of
             ((Inl err, calls), s') \<Rightarrow>
               ((Inl (case err of
                        HandlerError cls msg inner \<Rightarrow> err
                      | _ \<Rightarrow> HandlerError InternalServerError ''Unexpected error'' (Some err)),
                 calls), s')
           | ((Inr settings, calls), s') \<Rightarrow> ((Inr (hideFields handler settings), calls), s')))"

section \<open>Password update (user\_update\_password.go)\<close>

record 'u User =
  ID :: int
  Password :: string
  TokenIssueAt :: int
  UserOther :: 'u

record TokenData =
  ID :: int
  Role :: int

record userUpdatePasswordPayload =
  Password :: string
  NewPassword :: string

text \<open>
  What the handler takes from outside: the route variable, the demo service, the token
  of the request, the decoded payload, the crypto service, the strength checker, the clock
  and the error values and the role constant of other packages.
\<close>

record 'x UsersHandler =
  RouteUserID :: "'x error + int"
  ErrorMessage :: "'x error \<Rightarrow> string"
  IsDemoUser :: "int \<Rightarrow> bool"
  RetrieveTokenData :: "'x error + TokenData"
  DecodedPayload :: "'x error + userUpdatePasswordPayload"
  IsErrObjectNotFound :: "'x error \<Rightarrow> bool"
  CompareHashAndData :: "string \<Rightarrow> string \<Rightarrow> 'x error option"
  Check :: "string \<Rightarrow> bool"
  Hash :: "string \<Rightarrow> 'x error + string"
  Now :: int
  AdministratorRole :: int
  ErrNotAvailableInDemo :: "'x error"
  ErrUnauthorized :: "'x error"
  errCryptoHashFailure :: "'x error"

text \<open>
  \<^verbatim>\<open>userUpdatePassword\<close> (lines 52-106), a program over the store of users keyed by
  user identifier; the result is the \<^verbatim>\<open>*httperror.HandlerError\<close> returned, \<open>None\<close> for
  \<^verbatim>\<open>response.Empty(w)\<close>.
\<close>

definition userUpdatePassword :: "'x UsersHandler \<Rightarrow> (int, 'u User, 'x, 'x error option) prog" where
  "userUpdatePassword handler =
     (case RouteUserID handler of
        Inl err \<Rightarrow>
          Return (Some (HandlerError BadRequest ''Invalid user identifier route variable'' (Some err)))
      | Inr userID \<Rightarrow>
          if IsDemoUser handler userID then
            Return (Some (HandlerError Forbidden (ErrorMessage handler (ErrNotAvailableInDemo handler))
                            (Some (ErrNotAvailableInDemo handler))))
          else
            (case RetrieveTokenData handler of
               Inl err \<Rightarrow>
                 Return (Some (HandlerError InternalServerError
                                 ''Unable to retrieve user authentication token'' (Some err)))
             | Inr tokenData \<Rightarrow>
                 if Role tokenData \<noteq> AdministratorRole handler \<and> TokenData.ID tokenData \<noteq> userID then
                   Return (Some (HandlerError Forbidden ''Permission denied to update user''
                                   (Some (ErrUnauthorized handler))))
                 else
                   (case DecodedPayload handler of
                      Inl err \<Rightarrow>
                        Return (Some (HandlerError BadRequest ''Invalid request payload'' (Some err)))
                    | Inr payload \<Rightarrow>
                        Read userID (\<lambda>r. case r of
                           Inl err \<Rightarrow>
                             if IsErrObjectNotFound handler err then
                               Return (Some (HandlerError NotFound
                                 ''Unable to find a user with the specified identifier inside the database''
                                 (Some err)))
                             else
                               Return (Some (HandlerError InternalServerError
                                 ''Unable to find a user with the specified identifier inside the database''
                                 (Some err)))
                         | Inr user \<Rightarrow>
                             (case CompareHashAndData handler (User.Password user)
                                     (userUpdatePasswordPayload.Password payload) of
                                Some err \<Rightarrow>
                                  Return (Some (HandlerError Forbidden ''Current password doesn't match''
                                    (Some (ErrorString
                                      ''Current password does not match the password provided. Please try again''))))
                              | None \<Rightarrow>
                                  if \<not> Check handler (NewPassword payload) then
                                    Return (Some (HandlerError BadRequest
                                      ''Password does not meet the requirements'' None))
                                  else
                                    (case Hash handler (NewPassword payload) of
                                       Inl err \<Rightarrow>
                                         Return (Some (HandlerError InternalServerError
                                           ''Unable to hash user password''
                                           (Some (errCryptoHashFailure handler))))
                                     | Inr hash \<Rightarrow>
                                         (let user = user\<lparr>User.Password := hash\<rparr>;
                                              user = user\<lparr>TokenIssueAt := Now handler\<rparr>
                                          in Write (User.ID user) user (\<lambda>w. case w of
                                               Some err \<Rightarrow>
                                                 Return (Some (HandlerError InternalServerError
                                                   ''Unable to persist user changes inside the database''
                                                   (Some err)))
                                             | None \<Rightarrow> Return None))))))))"


section \<open>Vocabulary of the statements\<close>

text \<open>
  The URL that lines 172-178 hand to \<^verbatim>\<open>libhelm.ValidateHelmRepositoryURL\<close>, if any, for
  the stored settings \<open>settings\<close>; whether that check fails (line 179); and whether
  \<^verbatim>\<open>updateSnapshotInterval\<close> is called and fails (lines 246-250).
\<close>

definition helmCheck ::
  "('t, 'l, 'o, 'z, 'x) Handler \<Rightarrow> ('t, 'l, 'o) settingsUpdatePayload \<Rightarrow> ('t, 'l, 'o, 'z) Settings
     \<Rightarrow> string option" where
  "helmCheck handler payload settings =
     (case settingsUpdatePayload.HelmRepositoryURL payload of
        None \<Rightarrow> None
      | Some url \<Rightarrow>
          if url \<noteq> []
             \<and> TrimSuffix (ToLower handler url) ''/'' \<noteq> HelmRepositoryURL settings
             \<and> TrimSuffix (ToLower handler url) ''/'' \<noteq> DefaultHelmRepositoryURL handler
          then Some url else None)"

definition helmStepFails ::
  "('t, 'l, 'o, 'z, 'x) Handler \<Rightarrow> ('t, 'l, 'o) settingsUpdatePayload \<Rightarrow> ('t, 'l, 'o, 'z) Settings
     \<Rightarrow> bool" where
  "helmStepFails handler payload settings =
     (case helmCheck handler payload settings of
        None \<Rightarrow> False
      | Some url \<Rightarrow> ValidateHelmRepositoryURL handler url \<noteq> None)"

definition snapshotStepFails ::
  "('t, 'l, 'o, 'z, 'x) Handler \<Rightarrow> ('t, 'l, 'o) settingsUpdatePayload \<Rightarrow> ('t, 'l, 'o, 'z) Settings
     \<Rightarrow> bool" where
  "snapshotStepFails handler payload settings =
     (case settingsUpdatePayload.SnapshotInterval payload of
        None \<Rightarrow> False
      | Some v \<Rightarrow> v \<noteq> SnapshotInterval settings \<and> SetSnapshotInterval handler v \<noteq> None)"


section \<open>Example values\<close>

text \<open>Concrete collaborators and records on which the theorems below are instantiated.\<close>

definition asciiToLower :: "string \<Rightarrow> string" where
  "asciiToLower s =
     map (\<lambda>c. let n = (of_char c :: nat) in if 65 \<le> n \<and> n \<le> 90 then char_of (n + 32) else c) s"

definition exampleLDAP :: "(unit, unit) LDAPSettings" where
  "exampleLDAP =
     \<lparr> ReaderDN = ''cn=reader'', LDAPSettings.Password = ''S1'',
       TLSConfig = \<lparr> TLS = False, TLSSkipVerify = False, TLSCACertPath = [], TLSOther = () \<rparr>,
       StartTLS = False, LDAPOther = () \<rparr>"

definition exampleOAuth :: "unit OAuthSettings" where
  "exampleOAuth = \<lparr> ClientSecret = ''S1'', KubeSecretKey = None, OAuthOther = () \<rparr>"

definition exampleSettings :: "(unit, unit, unit, unit) Settings" where
  "exampleSettings =
     \<lparr> LogoURL = [], BlackListedLabels = [], AuthenticationMethod = 1,
       InternalAuthSettings = \<lparr> RequiredPasswordLength = 12 \<rparr>,
       LDAPSettings = exampleLDAP, OAuthSettings = exampleOAuth,
       SnapshotInterval = ''5m'', TemplatesURL = [], EdgeAgentCheckinInterval = 5,
       ShowKomposeBuildOption = False, EnableEdgeComputeFeatures = False,
       UserSessionTimeout = ''8h'', KubeconfigExpiry = ''0'', EnableTelemetry = False,
       HelmRepositoryURL = ''http://h/c'', KubectlShellImage = ''kubectl-shell'',
       TrustOnFirstConnect = False, EnforceEdgeID = False, EdgePortainerURL = [],
       SettingsOther = () \<rparr>"

definition emptyPayload :: "(unit, unit, unit) settingsUpdatePayload" where
  "emptyPayload =
     \<lparr> settingsUpdatePayload.LogoURL = None, settingsUpdatePayload.BlackListedLabels = None,
       settingsUpdatePayload.AuthenticationMethod = None,
       settingsUpdatePayload.InternalAuthSettings = None,
       settingsUpdatePayload.LDAPSettings = None, settingsUpdatePayload.OAuthSettings = None,
       settingsUpdatePayload.SnapshotInterval = None, settingsUpdatePayload.TemplatesURL = None,
       settingsUpdatePayload.EdgeAgentCheckinInterval = None,
       settingsUpdatePayload.ShowKomposeBuildOption = None,
       settingsUpdatePayload.EnableEdgeComputeFeatures = None,
       settingsUpdatePayload.UserSessionTimeout = None,
       settingsUpdatePayload.KubeconfigExpiry = None,
       settingsUpdatePayload.EnableTelemetry = None,
       settingsUpdatePayload.HelmRepositoryURL = None,
       settingsUpdatePayload.KubectlShellImage = None,
       settingsUpdatePayload.TrustOnFirstConnect = None,
       settingsUpdatePayload.EnforceEdgeID = None,
       settingsUpdatePayload.EdgePortainerURL = None \<rparr>"

definition exampleHandler :: "(unit, unit, unit, unit, nat) Handler" where
  "exampleHandler =
     \<lparr> IsDemo = False,
       ValidateHelmRepositoryURL = (\<lambda>url. None),
       SetSnapshotInterval = (\<lambda>interval. None),
       ParseDuration = (\<lambda>text. if text = ''5m'' then 300000000000 else 0),
       GetPathForTLSFile = ''/tls/ca.pem'',
       DeleteTLSFiles = None,
       DefaultHelmRepositoryURL = ''http://d/c'',
       ToLower = asciiToLower,
       hideFields = (\<lambda>settings. settings) \<rparr>"

definition exampleStore :: "(unit, (unit, unit, unit, unit) Settings) store" where
  "exampleStore = [() \<mapsto> exampleSettings]"


text \<open>A handle whose reads are those of the direct handle and whose writes all fail.\<close>

definition failingWriteHandle ::
  "((unit, (unit, unit, unit, unit) Settings) store, unit, (unit, unit, unit, unit) Settings, nat) DataStoreTx" where
  "failingWriteHandle =
     \<lparr> readAggregate = readAggregate (directHandle (Opaque 0)),
       writeAggregate = (\<lambda>k v s. (Some (Opaque 2), s)) \<rparr>"

text \<open>
  A payload whose LDAP block has an empty password and whose OAuth block has a new client
  secret; and a payload that sets the telemetry flag, the logo URL and the templates URL.
\<close>

definition secretPayload :: "(unit, unit, unit) settingsUpdatePayload" where
  "secretPayload =
     emptyPayload\<lparr>settingsUpdatePayload.LDAPSettings :=
                    Some (exampleLDAP\<lparr>LDAPSettings.Password := []\<rparr>),
                  settingsUpdatePayload.OAuthSettings :=
                    Some (exampleOAuth\<lparr>ClientSecret := ''S2''\<rparr>)\<rparr>"

definition brandingPayload :: "(unit, unit, unit) settingsUpdatePayload" where
  "brandingPayload =
     emptyPayload\<lparr>settingsUpdatePayload.EnableTelemetry := Some True,
                  settingsUpdatePayload.LogoURL := Some ''http://l/x.png'',
                  settingsUpdatePayload.TemplatesURL := Some ''http://t/t.json''\<rparr>"


text \<open>
  A handler whose file service fails to remove the TLS files, and a payload that only sets
  the session timeout; a handler whose Helm repository check rejects every URL, and a
  payload that only sets a new Helm repository URL (with a trailing slash).
\<close>

definition tlsFailingHandler :: "(unit, unit, unit, unit, nat) Handler" where
  "tlsFailingHandler = exampleHandler\<lparr>DeleteTLSFiles := Some (Opaque 1)\<rparr>"

definition sessionPayload :: "(unit, unit, unit) settingsUpdatePayload" where
  "sessionPayload = emptyPayload\<lparr>settingsUpdatePayload.UserSessionTimeout := Some ''5m''\<rparr>"

definition helmFailingHandler :: "(unit, unit, unit, unit, nat) Handler" where
  "helmFailingHandler = exampleHandler\<lparr>ValidateHelmRepositoryURL := (\<lambda>url. Some (Opaque 3))\<rparr>"

definition helmPayload :: "(unit, unit, unit) settingsUpdatePayload" where
  "helmPayload = emptyPayload\<lparr>settingsUpdatePayload.HelmRepositoryURL := Some ''http://n/c/''\<rparr>"

text \<open>
  A user, a store holding that user, and a handler for a request of that user that
  changes the password \<^verbatim>\<open>old\<close> to \<^verbatim>\<open>new\<close> at clock time 1700000000; the
  crypto service prefixes a password with \<^verbatim>\<open>h:\<close>.
\<close>

definition exampleUser :: "unit User" where
  "exampleUser = \<lparr> User.ID = 1, User.Password = ''h:old'', TokenIssueAt = 5, UserOther = () \<rparr>"

definition exampleUsersHandler :: "nat UsersHandler" where
  "exampleUsersHandler =
     \<lparr> RouteUserID = Inr 1,
       ErrorMessage = (\<lambda>err. []),
       IsDemoUser = (\<lambda>userID. False),
       RetrieveTokenData = Inr \<lparr> TokenData.ID = 1, Role = 2 \<rparr>,
       DecodedPayload = Inr \<lparr> userUpdatePasswordPayload.Password = ''old'', NewPassword = ''new'' \<rparr>,
       IsErrObjectNotFound = (\<lambda>err. err = Opaque 0),
       CompareHashAndData = (\<lambda>hash data. if hash = ''h:'' @ data then None else Some (Opaque 1)),
       Check = (\<lambda>password. password \<noteq> []),
       Hash = (\<lambda>password. Inr (''h:'' @ password)),
       Now = 1700000000,
       AdministratorRole = 1,
       ErrNotAvailableInDemo = Opaque 2,
       ErrUnauthorized = Opaque 3,
       errCryptoHashFailure = Opaque 4 \<rparr>"

definition exampleUsers :: "(int, unit User) store" where
  "exampleUsers = [1 \<mapsto> exampleUser]"

section \<open>Properties of the set reconciler\<close>

lemma distinct_rangeKeys: "distinct (rangeKeys ord m)"
  by (auto simp: rangeKeys_def Let_def)

lemma set_rangeKeys: "set (rangeKeys ord m) = keysOf m"
  by (auto simp: rangeKeys_def keysOf_def Let_def)

lemma rangeKeys_any_order:
  assumes "distinct ks" and "set ks = keysOf m"
  shows "rangeKeys (\<lambda>_. ks) m = ks"
proof -
  have "filter (\<lambda>k. k \<in> set (remdups (map fst m))) (remdups ks) = ks"
    using assms by (simp add: keysOf_def)
  moreover have "filter (\<lambda>k. k \<notin> set ks) (remdups (map fst m)) = []"
    using assms by (simp add: keysOf_def filter_empty_conv)
  ultimately show ?thesis
    by (simp add: rangeKeys_def Let_def)
qed

lemma keysOf_update: "keysOf (AList.update k v m) = insert k (keysOf m)"
  by (simp add: keysOf_def AList.dom_update)

lemma keysOf_Nil: "keysOf [] = {}"
  by (simp add: keysOf_def)

lemma keysOf_fold_insert:
  "keysOf (fold (\<lambda>el set. AList.update el True set) xs m) = keysOf m \<union> set xs"
  by (induction xs arbitrary: m) (auto simp: keysOf_update)

lemma keysOf_toSet: "keysOf (toSet xs) = set xs"
  by (simp add: toSet_def keysOf_fold_insert keysOf_Nil)

lemma lookupSet_update:
  "lookupSet (AList.update k True m) el = (el = k \<or> lookupSet m el)"
  by (simp add: lookupSet_def update_conv')

lemma lookupSet_fold_insert:
  "lookupSet (fold (\<lambda>el set. AList.update el True set) xs m) el = (el \<in> set xs \<or> lookupSet m el)"
  by (induction xs arbitrary: m) (auto simp: lookupSet_update)

lemma lookupSet_toSet: "lookupSet (toSet xs) el = (el \<in> set xs)"
  by (simp add: toSet_def lookupSet_fold_insert) (simp add: lookupSet_def)

lemma keysOf_fold_diff:
  "keysOf (fold (\<lambda>el set. if \<not> lookupSet setB el then AList.update el True set else set) ks m)
     = keysOf m \<union> {k \<in> set ks. \<not> lookupSet setB k}"
  by (induction ks arbitrary: m) (auto simp: keysOf_update)

lemma keysOf_setDifference:
  "keysOf (setDifference ord setA setB) = {k \<in> keysOf setA. \<not> lookupSet setB k}"
  by (simp add: setDifference_def keysOf_fold_diff keysOf_Nil set_rangeKeys)

lemma keysOf_setDifference_toSet:
  "keysOf (setDifference ord (toSet xs) (toSet ys)) = set xs - set ys"
  by (auto simp: keysOf_setDifference keysOf_toSet lookupSet_toSet)

lemma distinct_update_keys: "distinct (map fst m) \<Longrightarrow> distinct (map fst (AList.update k v m))"
  by (simp add: distinct_update)

lemma distinct_fold_diff:
  "distinct (map fst m) \<Longrightarrow>
   distinct (map fst (fold (\<lambda>el set. if P el then AList.update el True set else set) ks m))"
  by (induction ks arbitrary: m) (auto simp: distinct_update)

lemma distinct_setDifference: "distinct (map fst (setDifference ord setA setB))"
  by (simp add: setDifference_def distinct_fold_diff)

lemma values_update: "list_all snd m \<Longrightarrow> list_all snd (AList.update k True m)"
  by (induction m) auto

lemma values_fold_diff:
  "list_all snd m \<Longrightarrow>
   list_all snd (fold (\<lambda>el set. if P el then AList.update el True set else set) ks m)"
  by (induction ks arbitrary: m) (auto simp: values_update)

lemma values_setDifference: "list_all snd (setDifference ord setA setB)"
  by (simp add: setDifference_def values_fold_diff)

lemma setDifference_empty: "setDifference ord (toSet []) setB = []"
  by (simp add: setDifference_def toSet_def rangeKeys_def)

text \<open>
  C1. The reconciler returns exactly \<open>toAdd = new - old\<close> and \<open>toRemove = old - new\<close>,
  as sets of the distinct elements of its inputs: the keys of the map
  \<^verbatim>\<open>namespacesToAdd\<close> (line 141) are the elements of \<open>new\<close> that are not in \<open>old\<close>,
  the keys of \<^verbatim>\<open>namespacesToRemove\<close> (line 140) are the elements of \<open>old\<close> that are
  not in \<open>new\<close>, every key is held once and with the value \<^verbatim>\<open>true\<close>, whatever
  order the runtime ranges over the maps in; for two empty inputs both maps are empty.
\<close>

theorem C1_reconciler_set_difference:
  "keysOf (setDifference ord (toSet new) (toSet old)) = set new - set old
   \<and> keysOf (setDifference ord (toSet old) (toSet new)) = set old - set new
   \<and> distinct (map fst (setDifference ord (toSet new) (toSet old)))
   \<and> distinct (map fst (setDifference ord (toSet old) (toSet new)))
   \<and> list_all snd (setDifference ord (toSet new) (toSet old))
   \<and> list_all snd (setDifference ord (toSet old) (toSet new))
   \<and> setDifference ord (toSet []) (toSet []) = []"
  by (simp add: keysOf_setDifference_toSet distinct_setDifference values_setDifference
      setDifference_empty)

text \<open>
  C3. The delta is disjoint: no namespace is a key of both \<^verbatim>\<open>namespacesToAdd\<close> and
  \<^verbatim>\<open>namespacesToRemove\<close>, for every pair of inputs and every iteration order.
\<close>

theorem C3_delta_disjoint:
  "keysOf (setDifference ord (toSet new) (toSet old))
     \<inter> keysOf (setDifference ord' (toSet old) (toSet new)) = {}"
  by (auto simp: keysOf_setDifference_toSet)

section \<open>Properties of the access synchronizer\<close>

lemma deleteLoop_trace:
  "deleteLoop cli registry ks tr c = (ret, tr', c') \<Longrightarrow>
   \<exists>ds. map fst tr' = map fst tr @ map DeleteCall ds \<and> prefix ds ks \<and> (ret = None \<longrightarrow> ds = ks)"
proof (induction ks arbitrary: tr c)
  case Nil
  then show ?case by simp
next
  case (Cons k ks)
  show ?case
  proof (cases "DeleteRegistrySecret cli registry k c")
    case (Pair r c1)
    show ?thesis
    proof (cases r)
      case None
      with Pair Cons.prems have "deleteLoop cli registry ks (tr @ [(DeleteCall k, None)]) c1 = (ret, tr', c')"
        by simp
      from Cons.IH[OF this] obtain ds where
        "map fst tr' = map fst (tr @ [(DeleteCall k, None)]) @ map DeleteCall ds" "prefix ds ks" "ret = None \<longrightarrow> ds = ks"
        by blast
      then have "map fst tr' = map fst tr @ map DeleteCall (k # ds) \<and> prefix (k # ds) (k # ks) \<and> (ret = None \<longrightarrow> k # ds = k # ks)"
        by simp
      then show ?thesis by blast
    next
      case (Some err)
      with Pair Cons.prems have "tr' = tr @ [(DeleteCall k, Some err)]" "ret = Some err" by auto
      then have "map fst tr' = map fst tr @ map DeleteCall [k] \<and> prefix [k] (k # ks) \<and> (ret = None \<longrightarrow> [k] = k # ks)"
        by simp
      then show ?thesis by blast
    qed
  qed
qed

lemma createLoop_trace:
  "createLoop cli registry ks tr c = (ret, tr', c') \<Longrightarrow>
   \<exists>cs. map fst tr' = map fst tr @ map CreateCall cs \<and> prefix cs ks \<and> (ret = None \<longrightarrow> cs = ks)"
proof (induction ks arbitrary: tr c)
  case Nil
  then show ?case by simp
next
  case (Cons k ks)
  show ?case
  proof (cases "CreateRegistrySecret cli registry k c")
    case (Pair r c1)
    show ?thesis
    proof (cases r)
      case None
      with Pair Cons.prems have "createLoop cli registry ks (tr @ [(CreateCall k, None)]) c1 = (ret, tr', c')"
        by simp
      from Cons.IH[OF this] obtain cs where
        "map fst tr' = map fst (tr @ [(CreateCall k, None)]) @ map CreateCall cs" "prefix cs ks" "ret = None \<longrightarrow> cs = ks"
        by blast
      then have "map fst tr' = map fst tr @ map CreateCall (k # cs) \<and> prefix (k # cs) (k # ks) \<and> (ret = None \<longrightarrow> k # cs = k # ks)"
        by simp
      then show ?thesis by blast
    next
      case (Some err)
      with Pair Cons.prems have "tr' = tr @ [(CreateCall k, Some err)]" "ret = Some err" by auto
      then have "map fst tr' = map fst tr @ map CreateCall [k] \<and> prefix [k] (k # ks) \<and> (ret = None \<longrightarrow> [k] = k # ks)"
        by simp
      then show ?thesis by blast
    qed
  qed
qed

lemma deleteLoop_failFast:
  "deleteLoop cli registry ks tr c = (ret, tr', c') \<Longrightarrow> list_all (\<lambda>e. snd e = None) tr \<Longrightarrow>
   (case ret of None \<Rightarrow> list_all (\<lambda>e. snd e = None) tr'
     | Some err \<Rightarrow> tr' \<noteq> [] \<and> list_all (\<lambda>e. snd e = None) (butlast tr') \<and> snd (last tr') = Some err)"
proof (induction ks arbitrary: tr c)
  case Nil
  then show ?case by simp
next
  case (Cons k ks)
  show ?case
  proof (cases "DeleteRegistrySecret cli registry k c")
    case (Pair r c1)
    show ?thesis
    proof (cases r)
      case None
      with Pair Cons.prems have "deleteLoop cli registry ks (tr @ [(DeleteCall k, None)]) c1 = (ret, tr', c')"
        by simp
      moreover have "list_all (\<lambda>e. snd e = None) (tr @ [(DeleteCall k, None)])" using Cons.prems by simp
      ultimately show ?thesis by (rule Cons.IH)
    next
      case (Some err)
      with Pair Cons.prems show ?thesis by auto
    qed
  qed
qed

lemma createLoop_failFast:
  "createLoop cli registry ks tr c = (ret, tr', c') \<Longrightarrow> list_all (\<lambda>e. snd e = None) tr \<Longrightarrow>
   (case ret of None \<Rightarrow> list_all (\<lambda>e. snd e = None) tr'
     | Some err \<Rightarrow> tr' \<noteq> [] \<and> list_all (\<lambda>e. snd e = None) (butlast tr') \<and> snd (last tr') = Some err)"
proof (induction ks arbitrary: tr c)
  case Nil
  then show ?case by simp
next
  case (Cons k ks)
  show ?case
  proof (cases "CreateRegistrySecret cli registry k c")
    case (Pair r c1)
    show ?thesis
    proof (cases r)
      case None
      with Pair Cons.prems have "createLoop cli registry ks (tr @ [(CreateCall k, None)]) c1 = (ret, tr', c')"
        by simp
      moreover have "list_all (\<lambda>e. snd e = None) (tr @ [(CreateCall k, None)])" using Cons.prems by simp
      ultimately show ?thesis by (rule Cons.IH)
    next
      case (Some err)
      with Pair Cons.prems show ?thesis by auto
    qed
  qed
qed


lemma clientResponses_append:
  "clientResponses cli registry (xs @ ys) c =
     (case clientResponses cli registry xs c of
        (rs, c') \<Rightarrow> (case clientResponses cli registry ys c' of (rs', c'') \<Rightarrow> (rs @ rs', c'')))"
proof (induction xs arbitrary: c)
  case Nil
  then show ?case by (simp split: prod.splits)
next
  case (Cons x xs)
  then show ?case by (cases x) (simp_all split: prod.splits)
qed

lemma deleteLoop_responses:
  "deleteLoop cli registry ks tr c = (ret, tr', c') \<Longrightarrow>
   clientResponses cli registry (map fst tr) c0 = (map snd tr, c) \<Longrightarrow>
   clientResponses cli registry (map fst tr') c0 = (map snd tr', c')"
proof (induction ks arbitrary: tr c)
  case Nil
  then show ?case by simp
next
  case (Cons k ks)
  show ?case
  proof (cases "DeleteRegistrySecret cli registry k c")
    case (Pair r c1)
    have step: "clientResponses cli registry (map fst (tr @ [(DeleteCall k, r)])) c0
                  = (map snd (tr @ [(DeleteCall k, r)]), c1)"
      using Cons.prems(2) Pair by (simp add: clientResponses_append)
    show ?thesis
    proof (cases r)
      case None
      with Pair Cons.prems have a: "deleteLoop cli registry ks (tr @ [(DeleteCall k, None)]) c1 = (ret, tr', c')"
        by simp
      from step None have b: "clientResponses cli registry (map fst (tr @ [(DeleteCall k, None)])) c0
                  = (map snd (tr @ [(DeleteCall k, None)]), c1)"
        by simp
      from Cons.IH[OF a b] show ?thesis .
    next
      case (Some err)
      with Pair Cons.prems(1) have "tr' = tr @ [(DeleteCall k, r)]" "c' = c1" by auto
      with step show ?thesis by simp
    qed
  qed
qed

lemma createLoop_responses:
  "createLoop cli registry ks tr c = (ret, tr', c') \<Longrightarrow>
   clientResponses cli registry (map fst tr) c0 = (map snd tr, c) \<Longrightarrow>
   clientResponses cli registry (map fst tr') c0 = (map snd tr', c')"
proof (induction ks arbitrary: tr c)
  case Nil
  then show ?case by simp
next
  case (Cons k ks)
  show ?case
  proof (cases "CreateRegistrySecret cli registry k c")
    case (Pair r c1)
    have step: "clientResponses cli registry (map fst (tr @ [(CreateCall k, r)])) c0
                  = (map snd (tr @ [(CreateCall k, r)]), c1)"
      using Cons.prems(2) Pair by (simp add: clientResponses_append)
    show ?thesis
    proof (cases r)
      case None
      with Pair Cons.prems have a: "createLoop cli registry ks (tr @ [(CreateCall k, None)]) c1 = (ret, tr', c')"
        by simp
      from step None have b: "clientResponses cli registry (map fst (tr @ [(CreateCall k, None)])) c0
                  = (map snd (tr @ [(CreateCall k, None)]), c1)"
        by simp
      from Cons.IH[OF a b] show ?thesis .
    next
      case (Some err)
      with Pair Cons.prems(1) have "tr' = tr @ [(CreateCall k, r)]" "c' = c1" by auto
      with step show ?thesis by simp
    qed
  qed
qed

lemma prefix_distinct_subset:
  "prefix ds ks \<Longrightarrow> distinct ks \<Longrightarrow> set ks = S \<Longrightarrow> distinct ds \<and> set ds \<subseteq> S"
  by (auto simp: prefix_def)

lemma updateKubeAccess_Inl:
  "updateKubeAccess ord (Inl err) registry old new c = (Some err, [], c)"
  by (simp add: updateKubeAccess_def)

lemma updateKubeAccess_Inr:
  "updateKubeAccess ord (Inr cli) registry old new c =
     (case deleteLoop cli registry
             (rangeKeys ord (setDifference ord (toSet old) (toSet new))) [] c of
        (Some err, tr, c') \<Rightarrow> (Some err, tr, c')
      | (None, tr, c') \<Rightarrow>
          createLoop cli registry
            (rangeKeys ord (setDifference ord (toSet new) (toSet old))) tr c')"
  by (simp add: updateKubeAccess_def Let_def)

text \<open>
  C4. In one synchronization, whatever the client factory returns and whatever the client
  answers, the sequence of calls issued is a sequence of delete-secret calls followed by a
  sequence of create-secret calls: no create call precedes a delete call. The deleted
  namespaces are distinct elements of \<open>old - new\<close>, the created ones distinct
  elements of \<open>new - old\<close>.
\<close>

theorem C4_removals_before_additions:
  "\<exists>ds cs. map fst (fst (snd (updateKubeAccess ord getKubeClient registry old new c)))
              = map DeleteCall ds @ map CreateCall cs
     \<and> distinct ds \<and> set ds \<subseteq> set old - set new
     \<and> distinct cs \<and> set cs \<subseteq> set new - set old"
proof (cases getKubeClient)
  case (Inl err)
  have "map fst (fst (snd (updateKubeAccess ord (Inl err) registry old new c)))
      = map DeleteCall [] @ map CreateCall [] \<and> distinct ([]::string list)
      \<and> set [] \<subseteq> set old - set new
      \<and> distinct ([]::string list) \<and> set [] \<subseteq> set new - set old"
    by (simp add: updateKubeAccess_Inl)
  then show ?thesis unfolding Inl by blast
next
  case (Inr cli)
  define rm where "rm = rangeKeys ord (setDifference ord (toSet old) (toSet new))"
  define add where "add = rangeKeys ord (setDifference ord (toSet new) (toSet old))"
  have rm: "distinct rm" "set rm = set old - set new"
    by (simp_all add: rm_def distinct_rangeKeys set_rangeKeys keysOf_setDifference_toSet)
  have add: "distinct add" "set add = set new - set old"
    by (simp_all add: add_def distinct_rangeKeys set_rangeKeys keysOf_setDifference_toSet)
  obtain r1 tr1 c1 where d: "deleteLoop cli registry rm [] c = (r1, tr1, c1)"
    by (cases "deleteLoop cli registry rm [] c") auto
  from deleteLoop_trace[OF d] obtain ds where
    ds: "map fst tr1 = map DeleteCall ds" and pds: "prefix ds rm" by auto
  from prefix_distinct_subset[OF pds rm] have dsP: "distinct ds" "set ds \<subseteq> set old - set new"
    by simp_all
  show ?thesis
  proof (cases r1)
    case (Some err)
    with d have "fst (snd (updateKubeAccess ord (Inr cli) registry old new c)) = tr1"
      by (simp add: updateKubeAccess_Inr flip: rm_def)
    with ds have "map fst (fst (snd (updateKubeAccess ord (Inr cli) registry old new c)))
        = map DeleteCall ds @ map CreateCall []"
      by simp
    with dsP show ?thesis unfolding Inr by (intro exI[of _ ds] exI[of _ "[]"]) simp
  next
    case None
    obtain r2 tr2 c2 where cr: "createLoop cli registry add tr1 c1 = (r2, tr2, c2)"
      by (cases "createLoop cli registry add tr1 c1") auto
    from createLoop_trace[OF cr] obtain cs where
      cs: "map fst tr2 = map fst tr1 @ map CreateCall cs" and pcs: "prefix cs add" by auto
    from prefix_distinct_subset[OF pcs add] have csP: "distinct cs" "set cs \<subseteq> set new - set old"
      by simp_all
    from None d cr have "fst (snd (updateKubeAccess ord (Inr cli) registry old new c)) = tr2"
      by (simp add: updateKubeAccess_Inr flip: rm_def add_def)
    with cs ds have "map fst (fst (snd (updateKubeAccess ord (Inr cli) registry old new c)))
        = map DeleteCall ds @ map CreateCall cs"
      by simp
    with dsP csP show ?thesis unfolding Inr by (intro exI[of _ ds] exI[of _ cs]) simp
  qed
qed

lemma all_none_last:
  "list_all (\<lambda>e. snd e = None) xs \<Longrightarrow>
   list_all (\<lambda>e. snd e = None) (butlast xs) \<and> (xs \<noteq> [] \<longrightarrow> snd (last xs) = None)"
  by (induction xs) auto

text \<open>
  C5. When the client was obtained, every call but the last one issued returned no error,
  and the synchronizer returns what the last call returned (no error when no call was
  issued): a call that returns an error is the last call, and its error is returned as
  it is. The trace is what the client answered, call after call.
\<close>

theorem C5_first_error_aborts:
  assumes "updateKubeAccess ord (Inr cli) registry old new c = (ret, tr, c')"
  shows "list_all (\<lambda>e. snd e = None) (butlast tr)
         \<and> ret = (if tr = [] then None else snd (last tr))
         \<and> clientResponses cli registry (map fst tr) c = (map snd tr, c')"
proof -
  let ?rm = "rangeKeys ord (setDifference ord (toSet old) (toSet new))"
  let ?add = "rangeKeys ord (setDifference ord (toSet new) (toSet old))"
  obtain r1 tr1 c1 where d: "deleteLoop cli registry ?rm [] c = (r1, tr1, c1)"
    by (cases "deleteLoop cli registry ?rm [] c") auto
  have ff1: "case r1 of None \<Rightarrow> list_all (\<lambda>e. snd e = None) tr1
     | Some err \<Rightarrow> tr1 \<noteq> [] \<and> list_all (\<lambda>e. snd e = None) (butlast tr1) \<and> snd (last tr1) = Some err"
    using deleteLoop_failFast[OF d] by simp
  have rs1: "clientResponses cli registry (map fst tr1) c = (map snd tr1, c1)"
    using deleteLoop_responses[OF d, of c] by simp
  show ?thesis
  proof (cases r1)
    case (Some err)
    with d assms have "ret = Some err" "tr = tr1" "c' = c1"
      by (simp_all add: updateKubeAccess_def)
    with ff1 rs1 Some show ?thesis by simp
  next
    case None
    with d assms have cr: "createLoop cli registry ?add tr1 c1 = (ret, tr, c')"
      by (simp add: updateKubeAccess_def)
    from None ff1 have all1: "list_all (\<lambda>e. snd e = None) tr1" by simp
    have ff2: "case ret of None \<Rightarrow> list_all (\<lambda>e. snd e = None) tr
       | Some err \<Rightarrow> tr \<noteq> [] \<and> list_all (\<lambda>e. snd e = None) (butlast tr) \<and> snd (last tr) = Some err"
      using createLoop_failFast[OF cr all1] .
    have rs2: "clientResponses cli registry (map fst tr) c = (map snd tr, c')"
      using createLoop_responses[OF cr rs1] .
    show ?thesis
    proof (cases ret)
      case None
      with ff2 all_none_last[of tr] rs2 show ?thesis by auto
    next
      case (Some err)
      with ff2 rs2 show ?thesis by auto
    qed
  qed
qed

lemma demo_run:
  "updateKubeAccess (\<lambda>_. []) (Inr demoClient) () [''ns1'', ''ns2''] [''ns3''] [''ns1'', ''ns2'']
     = (Some (Opaque 7), [(DeleteCall ''ns1'', None), (DeleteCall ''ns2'', Some (Opaque 7))], [''ns2''])"
  by (simp add: updateKubeAccess_def toSet_def setDifference_def rangeKeys_def lookupSet_def demoClient_def)


text \<open>
  Witness of C5: from \<^verbatim>\<open>[ns1, ns2]\<close> to \<^verbatim>\<open>[ns3]\<close>, the deletion in \<^verbatim>\<open>ns2\<close>
  fails; no secret is created in \<^verbatim>\<open>ns3\<close>.
\<close>

theorem C5_first_error_aborts_witness:
  "updateKubeAccess (\<lambda>_. []) (Inr demoClient) () [''ns1'', ''ns2''] [''ns3''] [''ns1'', ''ns2'']
     = (Some (Opaque 7), [(DeleteCall ''ns1'', None), (DeleteCall ''ns2'', Some (Opaque 7))], [''ns2''])
   \<and> clientResponses demoClient () [DeleteCall ''ns1'', DeleteCall ''ns2''] [''ns1'', ''ns2'']
     = ([None, Some (Opaque 7)], [''ns2''])"
proof -
  have "clientResponses demoClient ()
          (map fst [(DeleteCall ''ns1'', None), (DeleteCall ''ns2'', Some (Opaque (7::nat)))])
          [''ns1'', ''ns2'']
        = (map snd [(DeleteCall ''ns1'', None), (DeleteCall ''ns2'', Some (Opaque 7))], [''ns2''])"
    using C5_first_error_aborts [OF demo_run] by (rule conjunct2 [THEN conjunct2])
  then have "clientResponses demoClient () [DeleteCall ''ns1'', DeleteCall ''ns2''] [''ns1'', ''ns2'']
     = ([None, Some (Opaque 7)], [''ns2''])"
    by (simp only: list.map fst_conv snd_conv)
  with demo_run show ?thesis by (rule conjI)
qed
section \<open>Properties of the settings merge\<close>

lemma run_updateSettings:
  "run tx (updateSettings handler payload) h =
     (case readAggregate tx () h of
        Inl err \<Rightarrow>
          ((Inl (HandlerError InternalServerError
                   ''Unable to retrieve the settings from the database'' (Some err)), []), h)
      | Inr settings \<Rightarrow>
          (case mergeSettings handler payload settings of
             (Inl err, calls) \<Rightarrow> ((Inl err, calls), h)
           | (Inr settings', calls) \<Rightarrow>
               (case writeAggregate tx () settings' h of
                  (Some err, h') \<Rightarrow>
                    ((Inl (HandlerError InternalServerError
                             ''Unable to persist settings changes inside the database''
                             (Some err)), calls), h')
                | (None, h') \<Rightarrow> ((Inr settings', calls), h'))))"
  by (simp add: updateSettings_def split: sum.splits prod.splits option.splits)

lemma writesOf_updateSettings:
  "writesOf tx (updateSettings handler payload) h =
     (case readAggregate tx () h of
        Inl err \<Rightarrow> []
      | Inr settings \<Rightarrow>
          (case mergeSettings handler payload settings of
             (Inl err, calls) \<Rightarrow> []
           | (Inr settings', calls) \<Rightarrow> [((), settings', fst (writeAggregate tx () settings' h))]))"
  by (simp add: updateSettings_def split: sum.splits prod.splits option.splits)

lemma mergeSettings_success:
  assumes "mergeSettings handler payload0 settings0 = (Inr settings', calls)"
  obtains s1 c1 s2 c2 s3 c3 s4 c4 where
    "mergeHelm handler (suppressDemo handler payload0)
       (mergeHead (suppressDemo handler payload0) settings0) = (Inr s1, c1)"
    "mergeSnapshot handler (suppressDemo handler payload0)
       (mergeMiddle (suppressDemo handler payload0) s1) = (Inr s2, c2)"
    "mergeTail handler (suppressDemo handler payload0) s2 = (s3, c3)"
    "updateTLS handler s3 = (Inr s4, c4)"
    "settings' = (case settingsUpdatePayload.KubectlShellImage (suppressDemo handler payload0) of
                    None \<Rightarrow> s4 | Some v \<Rightarrow> s4\<lparr>KubectlShellImage := v\<rparr>)"
    "calls = c1 @ c2 @ c3 @ c4"
  using assms
  by (auto simp: mergeSettings_def Let_def split: prod.splits sum.splits)

lemma mergeHead_frame:
  "LDAPSettings (mergeHead payload settings) = LDAPSettings settings"
  "OAuthSettings (mergeHead payload settings) = OAuthSettings settings"
  "EnableTelemetry (mergeHead payload settings) = EnableTelemetry settings"
  "HelmRepositoryURL (mergeHead payload settings) = HelmRepositoryURL settings"
  "SnapshotInterval (mergeHead payload settings) = SnapshotInterval settings"
  "LogoURL (mergeHead payload settings) =
     (case settingsUpdatePayload.LogoURL payload of None \<Rightarrow> LogoURL settings | Some v \<Rightarrow> v)"
  by (simp_all add: mergeHead_def Let_def split: option.splits)

lemma mergeHelm_frame:
  assumes "mergeHelm handler payload settings = (Inr s', calls)"
  shows "LDAPSettings s' = LDAPSettings settings"
    and "OAuthSettings s' = OAuthSettings settings"
    and "EnableTelemetry s' = EnableTelemetry settings"
    and "SnapshotInterval s' = SnapshotInterval settings"
    and "LogoURL s' = LogoURL settings"
  using assms
  by (auto simp: mergeHelm_def Let_def split: option.splits if_splits)

lemma mergeMiddle_frame:
  "LDAPSettings (mergeMiddle payload settings) = LDAPSettings (mergeLDAP payload settings)"
  "OAuthSettings (mergeMiddle payload settings) = OAuthSettings (mergeOAuth payload settings)"
  "EnableTelemetry (mergeMiddle payload settings) = EnableTelemetry settings"
  "SnapshotInterval (mergeMiddle payload settings) = SnapshotInterval settings"
  "LogoURL (mergeMiddle payload settings) = LogoURL settings"
  by (simp_all add: mergeMiddle_def mergeLDAP_def mergeOAuth_def Let_def split: option.splits)

lemma mergeSnapshot_frame:
  assumes "mergeSnapshot handler payload settings = (Inr s', calls)"
  shows "LDAPSettings s' = LDAPSettings settings"
    and "OAuthSettings s' = OAuthSettings settings"
    and "EnableTelemetry s' = EnableTelemetry settings"
    and "LogoURL s' = LogoURL settings"
  using assms
  by (auto simp: mergeSnapshot_def updateSnapshotInterval_def split: option.splits if_splits)

lemma mergeTail_frame:
  assumes "mergeTail handler payload settings = (s', calls)"
  shows "LDAPSettings s' = LDAPSettings settings"
    and "OAuthSettings s' = OAuthSettings settings"
    and "LogoURL s' = LogoURL settings"
    and "EnableTelemetry s' =
          (case settingsUpdatePayload.EnableTelemetry payload of
             None \<Rightarrow> EnableTelemetry settings | Some v \<Rightarrow> v)"
  using assms
  by (auto simp: mergeTail_def Let_def split: option.splits)

lemma updateTLS_frame:
  assumes "updateTLS handler settings = (Inr s', calls)"
  shows "LDAPSettings.Password (LDAPSettings s') = LDAPSettings.Password (LDAPSettings settings)"
    and "OAuthSettings s' = OAuthSettings settings"
    and "LogoURL s' = LogoURL settings"
    and "EnableTelemetry s' = EnableTelemetry settings"
  using assms
  by (auto simp: updateTLS_def Let_def split: option.splits if_splits)


lemma suppressDemo_fields:
  "settingsUpdatePayload.LDAPSettings (suppressDemo handler payload) = settingsUpdatePayload.LDAPSettings payload"
  "settingsUpdatePayload.OAuthSettings (suppressDemo handler payload) = settingsUpdatePayload.OAuthSettings payload"
  "settingsUpdatePayload.HelmRepositoryURL (suppressDemo handler payload) = settingsUpdatePayload.HelmRepositoryURL payload"
  "settingsUpdatePayload.SnapshotInterval (suppressDemo handler payload) = settingsUpdatePayload.SnapshotInterval payload"
  "settingsUpdatePayload.UserSessionTimeout (suppressDemo handler payload) = settingsUpdatePayload.UserSessionTimeout payload"
  by (simp_all add: suppressDemo_def)

lemma suppressDemo_demo:
  "IsDemo handler \<Longrightarrow> settingsUpdatePayload.EnableTelemetry (suppressDemo handler payload) = None"
  "IsDemo handler \<Longrightarrow> settingsUpdatePayload.LogoURL (suppressDemo handler payload) = None"
  by (simp_all add: suppressDemo_def)

lemma kubectl_frame:
  "LDAPSettings (case v of None \<Rightarrow> s | Some x \<Rightarrow> s\<lparr>KubectlShellImage := x\<rparr>) = LDAPSettings s"
  "OAuthSettings (case v of None \<Rightarrow> s | Some x \<Rightarrow> s\<lparr>KubectlShellImage := x\<rparr>) = OAuthSettings s"
  "LogoURL (case v of None \<Rightarrow> s | Some x \<Rightarrow> s\<lparr>KubectlShellImage := x\<rparr>) = LogoURL s"
  "EnableTelemetry (case v of None \<Rightarrow> s | Some x \<Rightarrow> s\<lparr>KubectlShellImage := x\<rparr>) = EnableTelemetry s"
  by (simp_all split: option.splits)

lemma mergeSettings_ldap_oauth:
  assumes "mergeSettings handler payload settings = (Inr settings', calls)"
  shows "LDAPSettings.Password (LDAPSettings settings')
           = LDAPSettings.Password (LDAPSettings (mergeLDAP payload settings))"
    and "OAuthSettings settings' = OAuthSettings (mergeOAuth payload settings)"
proof -
  let ?p = "suppressDemo handler payload"
  from assms obtain s1 c1 s2 c2 s3 c3 s4 c4 where
    h: "mergeHelm handler ?p (mergeHead ?p settings) = (Inr s1, c1)" and
    sn: "mergeSnapshot handler ?p (mergeMiddle ?p s1) = (Inr s2, c2)" and
    tl: "mergeTail handler ?p s2 = (s3, c3)" and
    tls: "updateTLS handler s3 = (Inr s4, c4)" and
    fin: "settings' = (case settingsUpdatePayload.KubectlShellImage ?p of
                    None \<Rightarrow> s4 | Some v \<Rightarrow> s4\<lparr>KubectlShellImage := v\<rparr>)"
    by (rule mergeSettings_success)
  have l1: "LDAPSettings s1 = LDAPSettings settings" "OAuthSettings s1 = OAuthSettings settings"
    using mergeHelm_frame(1,2)[OF h] by (simp_all add: mergeHead_frame)
  have "mergeLDAP ?p s1 = s1\<lparr>LDAPSettings := LDAPSettings (mergeLDAP payload settings)\<rparr>"
    using l1 by (simp add: mergeLDAP_def suppressDemo_fields Let_def split: option.splits)
  then have l2: "LDAPSettings (mergeMiddle ?p s1) = LDAPSettings (mergeLDAP payload settings)"
    by (simp add: mergeMiddle_frame)
  have "mergeOAuth ?p s1 = s1\<lparr>OAuthSettings := OAuthSettings (mergeOAuth payload settings)\<rparr>"
    using l1 by (simp add: mergeOAuth_def suppressDemo_fields Let_def split: option.splits)
  then have o2: "OAuthSettings (mergeMiddle ?p s1) = OAuthSettings (mergeOAuth payload settings)"
    by (simp add: mergeMiddle_frame)
  have l3: "LDAPSettings s3 = LDAPSettings (mergeLDAP payload settings)"
    using mergeTail_frame(1)[OF tl] mergeSnapshot_frame(1)[OF sn] l2 by simp
  have o3: "OAuthSettings s3 = OAuthSettings (mergeOAuth payload settings)"
    using mergeTail_frame(2)[OF tl] mergeSnapshot_frame(2)[OF sn] o2 by simp
  show "LDAPSettings.Password (LDAPSettings settings')
           = LDAPSettings.Password (LDAPSettings (mergeLDAP payload settings))"
    using updateTLS_frame(1)[OF tls] l3 by (simp add: fin kubectl_frame)
  show "OAuthSettings settings' = OAuthSettings (mergeOAuth payload settings)"
    using updateTLS_frame(2)[OF tls] o3 by (simp add: fin kubectl_frame)
qed

lemma mergeSettings_demo:
  assumes "mergeSettings handler payload settings = (Inr settings', calls)" and "IsDemo handler"
  shows "EnableTelemetry settings' = EnableTelemetry settings"
    and "LogoURL settings' = LogoURL settings"
proof -
  let ?p = "suppressDemo handler payload"
  from assms(1) obtain s1 c1 s2 c2 s3 c3 s4 c4 where
    h: "mergeHelm handler ?p (mergeHead ?p settings) = (Inr s1, c1)" and
    sn: "mergeSnapshot handler ?p (mergeMiddle ?p s1) = (Inr s2, c2)" and
    tl: "mergeTail handler ?p s2 = (s3, c3)" and
    tls: "updateTLS handler s3 = (Inr s4, c4)" and
    fin: "settings' = (case settingsUpdatePayload.KubectlShellImage ?p of
                    None \<Rightarrow> s4 | Some v \<Rightarrow> s4\<lparr>KubectlShellImage := v\<rparr>)"
    by (rule mergeSettings_success)
  have t1: "EnableTelemetry s1 = EnableTelemetry settings"
    using mergeHelm_frame(3)[OF h] by (simp add: mergeHead_frame)
  have g1: "LogoURL s1 = LogoURL settings"
    using mergeHelm_frame(5)[OF h] assms(2) by (simp add: mergeHead_frame suppressDemo_demo)
  have t2: "EnableTelemetry s2 = EnableTelemetry settings"
    using mergeSnapshot_frame(3)[OF sn] t1 by (simp add: mergeMiddle_frame)
  have g2: "LogoURL s2 = LogoURL settings"
    using mergeSnapshot_frame(4)[OF sn] g1 by (simp add: mergeMiddle_frame)
  have t3: "EnableTelemetry s3 = EnableTelemetry settings"
    using mergeTail_frame(4)[OF tl] t2 assms(2) by (simp add: suppressDemo_demo)
  have g3: "LogoURL s3 = LogoURL settings"
    using mergeTail_frame(3)[OF tl] g2 by simp
  show "EnableTelemetry settings' = EnableTelemetry settings"
    using updateTLS_frame(4)[OF tls] t3 by (simp add: fin kubectl_frame)
  show "LogoURL settings' = LogoURL settings"
    using updateTLS_frame(3)[OF tls] g3 by (simp add: fin kubectl_frame)
qed

lemma suppressDemo_idem:
  "IsDemo handler \<Longrightarrow>
   suppressDemo handler (payload\<lparr>settingsUpdatePayload.EnableTelemetry := None,
                                  settingsUpdatePayload.LogoURL := None\<rparr>)
     = suppressDemo handler payload"
  by (simp add: suppressDemo_def)

lemma mergeSettings_demo_payload:
  "IsDemo handler \<Longrightarrow>
   mergeSettings handler (payload\<lparr>settingsUpdatePayload.EnableTelemetry := None,
                                   settingsUpdatePayload.LogoURL := None\<rparr>) settings
     = mergeSettings handler payload settings"
  unfolding mergeSettings_def by (simp only: suppressDemo_idem)


lemma mergeHelm_result:
  "mergeHelm handler payload settings = (r, calls) \<Longrightarrow>
   calls = (case helmCheck handler payload settings of
              None \<Rightarrow> [] | Some url \<Rightarrow> [ValidateHelmRepositoryURLCall url])
   \<and> (isl r \<longleftrightarrow> helmStepFails handler payload settings)
   \<and> (helmStepFails handler payload settings \<longrightarrow>
        (\<exists>err. r = Inl (HandlerError BadRequest
                   ''Invalid Helm repository URL. Must correspond to a valid URL format'' (Some err))))"
  by (auto simp: mergeHelm_def helmCheck_def helmStepFails_def Let_def
           split: option.splits if_splits)

lemma mergeSnapshot_result:
  "mergeSnapshot handler payload settings = (r, calls) \<Longrightarrow>
   calls = (case settingsUpdatePayload.SnapshotInterval payload of
              None \<Rightarrow> []
            | Some v \<Rightarrow> if v \<noteq> SnapshotInterval settings then [SetSnapshotIntervalCall v] else [])
   \<and> (isl r \<longleftrightarrow> snapshotStepFails handler payload settings)"
  by (auto simp: mergeSnapshot_def updateSnapshotInterval_def snapshotStepFails_def
           split: option.splits if_splits)

lemma mergeTail_calls:
  "snd (mergeTail handler payload settings) =
     (case settingsUpdatePayload.UserSessionTimeout payload of
        None \<Rightarrow> []
      | Some v \<Rightarrow> [SetUserSessionDurationCall (ParseDuration handler v)])"
  by (simp add: mergeTail_def Let_def split: option.splits)

lemma updateTLS_calls:
  "snd (updateTLS handler settings) = [GetPathForTLSFileCall]
   \<or> snd (updateTLS handler settings) = [DeleteTLSFilesCall]"
  by (simp add: updateTLS_def Let_def split: option.splits)

lemma helmCheck_step:
  "helmCheck handler (suppressDemo handler payload)
     (mergeHead (suppressDemo handler payload) settings) = helmCheck handler payload settings"
  by (simp add: helmCheck_def suppressDemo_fields mergeHead_frame cong: option.case_cong)

lemma helmStepFails_step:
  "helmStepFails handler (suppressDemo handler payload)
     (mergeHead (suppressDemo handler payload) settings) = helmStepFails handler payload settings"
  by (simp add: helmStepFails_def helmCheck_step)

lemma snapshotStepFails_step:
  "SnapshotInterval s1 = SnapshotInterval settings \<Longrightarrow>
   snapshotStepFails handler (suppressDemo handler payload)
     (mergeMiddle (suppressDemo handler payload) s1) = snapshotStepFails handler payload settings"
  by (simp add: snapshotStepFails_def suppressDemo_fields mergeMiddle_frame cong: option.case_cong)

text \<open>The external calls of the merge, whatever its outcome.\<close>

lemma mergeSettings_calls:
  "\<exists>tlsCalls.
     (tlsCalls = [GetPathForTLSFileCall] \<or> tlsCalls = [DeleteTLSFilesCall])
   \<and> snd (mergeSettings handler payload settings) =
       (case helmCheck handler payload settings of
          None \<Rightarrow> [] | Some url \<Rightarrow> [ValidateHelmRepositoryURLCall url])
       @ (if helmStepFails handler payload settings then []
          else (case settingsUpdatePayload.SnapshotInterval payload of
                  None \<Rightarrow> []
                | Some v \<Rightarrow>
                    if v \<noteq> SnapshotInterval settings then [SetSnapshotIntervalCall v] else [])
               @ (if snapshotStepFails handler payload settings then []
                  else (case settingsUpdatePayload.UserSessionTimeout payload of
                          None \<Rightarrow> []
                        | Some v \<Rightarrow> [SetUserSessionDurationCall (ParseDuration handler v)])
                       @ tlsCalls))"
proof -
  let ?p = "suppressDemo handler payload"
  obtain r1 c1 where h: "mergeHelm handler ?p (mergeHead ?p settings) = (r1, c1)"
    by (cases "mergeHelm handler ?p (mergeHead ?p settings)") auto
  from mergeHelm_result[OF h]
  have c1: "c1 = (case helmCheck handler payload settings of
              None \<Rightarrow> [] | Some url \<Rightarrow> [ValidateHelmRepositoryURLCall url])"
    and f1: "isl r1 \<longleftrightarrow> helmStepFails handler payload settings"
    by (simp_all add: helmCheck_step helmStepFails_step)
  show ?thesis
  proof (cases r1)
    case (Inl err)
    with h f1 c1 have "snd (mergeSettings handler payload settings) = c1"
      "helmStepFails handler payload settings"
      by (simp_all add: mergeSettings_def Let_def)
    with c1 show ?thesis by auto
  next
    case (Inr s1)
    with f1 have nf1: "\<not> helmStepFails handler payload settings" by simp
    have si: "SnapshotInterval s1 = SnapshotInterval settings"
      using mergeHelm_frame(4)[OF h[unfolded Inr]] by (simp add: mergeHead_frame)
    obtain r2 c2 where sn: "mergeSnapshot handler ?p (mergeMiddle ?p s1) = (r2, c2)"
      by (cases "mergeSnapshot handler ?p (mergeMiddle ?p s1)") auto
    from mergeSnapshot_result[OF sn] si
    have c2: "c2 = (case settingsUpdatePayload.SnapshotInterval payload of
                  None \<Rightarrow> []
                | Some v \<Rightarrow>
                    if v \<noteq> SnapshotInterval settings then [SetSnapshotIntervalCall v] else [])"
      and f2: "isl r2 \<longleftrightarrow> snapshotStepFails handler payload settings"
      by (simp_all add: snapshotStepFails_step suppressDemo_fields mergeMiddle_frame
            cong: option.case_cong)
    show ?thesis
    proof (cases r2)
      case (Inl err)
      with h Inr sn have "snd (mergeSettings handler payload settings) = c1 @ c2"
        by (simp add: mergeSettings_def Let_def)
      moreover from Inl f2 have "snapshotStepFails handler payload settings" by simp
      ultimately show ?thesis using c1 c2 nf1 by auto
    next
      case s2: (Inr s2)
      with f2 have nf2: "\<not> snapshotStepFails handler payload settings" by simp
      obtain s3 c3 where tl: "mergeTail handler ?p s2 = (s3, c3)"
        by (cases "mergeTail handler ?p s2") auto
      have c3: "c3 = (case settingsUpdatePayload.UserSessionTimeout payload of
                          None \<Rightarrow> []
                        | Some v \<Rightarrow> [SetUserSessionDurationCall (ParseDuration handler v)])"
        using mergeTail_calls[of handler ?p s2] tl by (simp add: suppressDemo_fields)
      obtain r4 c4 where tls: "updateTLS handler s3 = (r4, c4)"
        by (cases "updateTLS handler s3") auto
      have c4: "c4 = [GetPathForTLSFileCall] \<or> c4 = [DeleteTLSFilesCall]"
        using updateTLS_calls[of handler s3] tls by simp
      have "snd (mergeSettings handler payload settings) = c1 @ c2 @ c3 @ c4"
        using h Inr sn s2 tl tls by (cases r4) (simp_all add: mergeSettings_def Let_def)
      with c1 c2 c3 c4 nf1 nf2 show ?thesis by auto
    qed
  qed
qed

lemmas example_defs = exampleHandler_def exampleSettings_def exampleLDAP_def exampleOAuth_def
  emptyPayload_def exampleStore_def

lemmas merge_defs = mergeSettings_def suppressDemo_def mergeHead_def mergeHelm_def mergeMiddle_def
  mergeLDAP_def mergeOAuth_def mergeSnapshot_def updateSnapshotInterval_def mergeTail_def updateTLS_def

lemma calls_run_updateSettings:
  "readAggregate tx () h = Inr settings \<Longrightarrow>
   snd (fst (run tx (updateSettings handler payload) h)) = snd (mergeSettings handler payload settings)"
  by (simp add: run_updateSettings split: sum.splits prod.splits option.splits)

text \<open>
  C6. Whenever \<^verbatim>\<open>updateSettings\<close> succeeds, against any handle: the settings it
  returns are the settings it persisted; if the payload has an LDAP block, their LDAP
  password is the payload's when that is non-empty and the stored one when it is empty;
  if the payload has an OAuth block, their OAuth client secret is the payload's when that
  is non-empty and the stored one when it is empty.
\<close>

theorem C6_secret_preserving:
  assumes "run tx (updateSettings handler payload) h = ((Inr settings', calls), h')"
  shows "\<exists>settings. readAggregate tx () h = Inr settings
           \<and> writeAggregate tx () settings' h = (None, h')
           \<and> (\<forall>ldap. settingsUpdatePayload.LDAPSettings payload = Some ldap \<longrightarrow>
                 LDAPSettings.Password (LDAPSettings settings') =
                   (if LDAPSettings.Password ldap \<noteq> [] then LDAPSettings.Password ldap
                    else LDAPSettings.Password (LDAPSettings settings)))
           \<and> (\<forall>oauth. settingsUpdatePayload.OAuthSettings payload = Some oauth \<longrightarrow>
                 ClientSecret (OAuthSettings settings') =
                   (if ClientSecret oauth \<noteq> [] then ClientSecret oauth
                    else ClientSecret (OAuthSettings settings)))"
proof -
  from assms obtain settings where
    rd: "readAggregate tx () h = Inr settings" and
    mg: "mergeSettings handler payload settings = (Inr settings', calls)" and
    wr: "writeAggregate tx () settings' h = (None, h')"
    by (auto simp: run_updateSettings split: sum.splits prod.splits option.splits)
  have "LDAPSettings.Password (LDAPSettings settings') =
          (if LDAPSettings.Password ldap \<noteq> [] then LDAPSettings.Password ldap
           else LDAPSettings.Password (LDAPSettings settings))"
    if "settingsUpdatePayload.LDAPSettings payload = Some ldap" for ldap
    using mergeSettings_ldap_oauth(1)[OF mg] that by (simp add: mergeLDAP_def Let_def)
  moreover have "ClientSecret (OAuthSettings settings') =
          (if ClientSecret oauth \<noteq> [] then ClientSecret oauth
           else ClientSecret (OAuthSettings settings))"
    if "settingsUpdatePayload.OAuthSettings payload = Some oauth" for oauth
    using mergeSettings_ldap_oauth(2)[OF mg] that by (simp add: mergeOAuth_def Let_def)
  ultimately show ?thesis using rd wr by blast
qed

lemma secretPayload_run:
  "run (directHandle (Opaque 0)) (updateSettings exampleHandler secretPayload) exampleStore
     = ((Inr (exampleSettings\<lparr>OAuthSettings := exampleOAuth\<lparr>ClientSecret := ''S2''\<rparr>\<rparr>), [DeleteTLSFilesCall]),
        [() \<mapsto> exampleSettings\<lparr>OAuthSettings := exampleOAuth\<lparr>ClientSecret := ''S2''\<rparr>\<rparr>])"
  by (simp add: run_updateSettings directHandle_def merge_defs example_defs secretPayload_def)

text \<open>
  A successful run: the stored LDAP password and OAuth client secret are \<^verbatim>\<open>S1\<close>; the
  payload's LDAP block has an empty password and its OAuth block the client secret
  \<^verbatim>\<open>S2\<close>. The update succeeds, and the settings returned and persisted keep the LDAP
  password \<^verbatim>\<open>S1\<close> and carry the client secret \<^verbatim>\<open>S2\<close>.
\<close>

theorem C6_secret_preserving_witness:
  "run (directHandle (Opaque 0)) (updateSettings exampleHandler secretPayload) exampleStore
     = ((Inr (exampleSettings\<lparr>OAuthSettings := exampleOAuth\<lparr>ClientSecret := ''S2''\<rparr>\<rparr>),
         [DeleteTLSFilesCall]),
        [() \<mapsto> exampleSettings\<lparr>OAuthSettings := exampleOAuth\<lparr>ClientSecret := ''S2''\<rparr>\<rparr>])
   \<and> readAggregate (directHandle (Opaque (0::nat))) () exampleStore = Inr exampleSettings
   \<and> settingsUpdatePayload.LDAPSettings secretPayload
       = Some (exampleLDAP\<lparr>LDAPSettings.Password := []\<rparr>)
   \<and> LDAPSettings.Password (LDAPSettings exampleSettings) = ''S1''
   \<and> LDAPSettings.Password
        (LDAPSettings (exampleSettings\<lparr>OAuthSettings := exampleOAuth\<lparr>ClientSecret := ''S2''\<rparr>\<rparr>))
       = LDAPSettings.Password (LDAPSettings exampleSettings)
   \<and> settingsUpdatePayload.OAuthSettings secretPayload
       = Some (exampleOAuth\<lparr>ClientSecret := ''S2''\<rparr>)
   \<and> ClientSecret (OAuthSettings exampleSettings) = ''S1''
   \<and> ClientSecret
        (OAuthSettings (exampleSettings\<lparr>OAuthSettings := exampleOAuth\<lparr>ClientSecret := ''S2''\<rparr>\<rparr>))
       = ''S2''"
proof -
  let ?S = "exampleSettings\<lparr>OAuthSettings := exampleOAuth\<lparr>ClientSecret := ''S2''\<rparr>\<rparr>"
  from C6_secret_preserving [OF secretPayload_run] obtain settings where
    rd: "readAggregate (directHandle (Opaque (0::nat))) () exampleStore = Inr settings" and
    l: "\<forall>ldap. settingsUpdatePayload.LDAPSettings secretPayload = Some ldap \<longrightarrow>
                 LDAPSettings.Password (LDAPSettings ?S) =
                   (if LDAPSettings.Password ldap \<noteq> [] then LDAPSettings.Password ldap
                    else LDAPSettings.Password (LDAPSettings settings))" and
    o: "\<forall>oauth. settingsUpdatePayload.OAuthSettings secretPayload = Some oauth \<longrightarrow>
                 ClientSecret (OAuthSettings ?S) =
                   (if ClientSecret oauth \<noteq> [] then ClientSecret oauth
                    else ClientSecret (OAuthSettings settings))"
    by blast
  have rd': "readAggregate (directHandle (Opaque (0::nat))) () exampleStore = Inr exampleSettings"
    by (simp add: directHandle_def exampleStore_def)
  with rd have s: "settings = exampleSettings" by simp
  have pl: "settingsUpdatePayload.LDAPSettings secretPayload
              = Some (exampleLDAP\<lparr>LDAPSettings.Password := []\<rparr>)"
    and po: "settingsUpdatePayload.OAuthSettings secretPayload
              = Some (exampleOAuth\<lparr>ClientSecret := ''S2''\<rparr>)"
    by (simp_all add: secretPayload_def emptyPayload_def)
  from l[rule_format, OF pl] s
  have a: "LDAPSettings.Password (LDAPSettings ?S)
             = LDAPSettings.Password (LDAPSettings exampleSettings)"
    by simp
  from o[rule_format, OF po]
  have b: "ClientSecret (OAuthSettings ?S) = ''S2''"
    by simp
  have c: "LDAPSettings.Password (LDAPSettings exampleSettings) = ''S1''"
    and d: "ClientSecret (OAuthSettings exampleSettings) = ''S1''"
    by (simp_all add: example_defs)
  from secretPayload_run rd' pl c a po d b show ?thesis by (intro conjI)
qed


text \<open>
  C8. In demo mode, for every payload and against any handle: \<^verbatim>\<open>updateSettings\<close>
  is the program it is for the payload with \<^verbatim>\<open>EnableTelemetry\<close> and
  \<^verbatim>\<open>LogoURL\<close> absent (lines 151-154 come before every field is merged); every
  settings record it writes, and the record it returns, has the telemetry flag and the
  logo URL of the stored settings.
\<close>

lemma updateSettings_demo_payload:
  "IsDemo handler \<Longrightarrow>
   updateSettings handler (payload\<lparr>settingsUpdatePayload.EnableTelemetry := None,
                                    settingsUpdatePayload.LogoURL := None\<rparr>)
     = updateSettings handler payload"
  unfolding updateSettings_def by (simp only: mergeSettings_demo_payload)

theorem C8_demo_suppression:
  assumes "IsDemo handler" and "readAggregate tx () h = Inr settings"
  shows "updateSettings handler payload
           = updateSettings handler (payload\<lparr>settingsUpdatePayload.EnableTelemetry := None,
                                              settingsUpdatePayload.LogoURL := None\<rparr>)
         \<and> list_all (\<lambda>w. EnableTelemetry (fst (snd w)) = EnableTelemetry settings
                          \<and> LogoURL (fst (snd w)) = LogoURL settings)
             (writesOf tx (updateSettings handler payload) h)
         \<and> (case fst (fst (run tx (updateSettings handler payload) h)) of
               Inl err \<Rightarrow> True
             | Inr settings' \<Rightarrow> EnableTelemetry settings' = EnableTelemetry settings
                               \<and> LogoURL settings' = LogoURL settings)"
proof (intro conjI)
  show "updateSettings handler payload
           = updateSettings handler (payload\<lparr>settingsUpdatePayload.EnableTelemetry := None,
                                              settingsUpdatePayload.LogoURL := None\<rparr>)"
    using assms(1) by (simp add: updateSettings_demo_payload)
next
  obtain r calls where mg: "mergeSettings handler payload settings = (r, calls)"
    by (cases "mergeSettings handler payload settings") auto
  show "list_all (\<lambda>w. EnableTelemetry (fst (snd w)) = EnableTelemetry settings
                          \<and> LogoURL (fst (snd w)) = LogoURL settings)
             (writesOf tx (updateSettings handler payload) h)"
  proof (cases r)
    case (Inl err)
    with mg assms(2) show ?thesis by (simp add: writesOf_updateSettings)
  next
    case (Inr settings')
    with mg mergeSettings_demo[of handler payload settings settings' calls] assms
    show ?thesis by (simp add: writesOf_updateSettings)
  qed
  show "case fst (fst (run tx (updateSettings handler payload) h)) of
               Inl err \<Rightarrow> True
             | Inr settings' \<Rightarrow> EnableTelemetry settings' = EnableTelemetry settings
                               \<and> LogoURL settings' = LogoURL settings"
  proof (cases r)
    case (Inl err)
    with mg assms(2) show ?thesis by (simp add: run_updateSettings)
  next
    case (Inr settings')
    with mg mergeSettings_demo[of handler payload settings settings' calls] assms
    show ?thesis by (simp add: run_updateSettings split: prod.splits option.splits)
  qed
qed

lemma brandingPayload_run:
  "run (directHandle (Opaque 0)) (updateSettings (exampleHandler\<lparr>IsDemo := True\<rparr>) brandingPayload) exampleStore
     = ((Inr (exampleSettings\<lparr>TemplatesURL := ''http://t/t.json''\<rparr>), [DeleteTLSFilesCall]),
        [() \<mapsto> exampleSettings\<lparr>TemplatesURL := ''http://t/t.json''\<rparr>])"
  by (simp add: run_updateSettings directHandle_def merge_defs example_defs brandingPayload_def)

lemma exampleStore_read: "readAggregate (directHandle (Opaque 0)) () exampleStore = Inr exampleSettings"
  by (simp add: directHandle_def exampleStore_def)

lemma demoHandler_IsDemo: "IsDemo (exampleHandler\<lparr>IsDemo := True\<rparr>)"
  by simp

theorem C8_demo_suppression_witness:
  "IsDemo (exampleHandler\<lparr>IsDemo := True\<rparr>)
   \<and> readAggregate (directHandle (Opaque 0)) () exampleStore = Inr exampleSettings
   \<and> settingsUpdatePayload.EnableTelemetry brandingPayload = Some True
   \<and> EnableTelemetry (exampleSettings\<lparr>TemplatesURL := ''http://t/t.json''\<rparr>) = EnableTelemetry exampleSettings
   \<and> LogoURL (exampleSettings\<lparr>TemplatesURL := ''http://t/t.json''\<rparr>) = LogoURL exampleSettings"
  using C8_demo_suppression [OF demoHandler_IsDemo exampleStore_read, of brandingPayload] exampleStore_read
  by (simp add: brandingPayload_run brandingPayload_def)

text \<open>
  C7, as amended. The dependent subsystems are reconfigured during the merge, where their
  fields are processed: \<^verbatim>\<open>SetSnapshotInterval\<close> is called exactly when the
  payload's snapshot interval is present and differs from the stored one and the Helm
  check did not fail before; \<^verbatim>\<open>SetUserSessionDuration\<close> is called exactly when
  the payload's session timeout is present and neither the Helm check nor the snapshot
  update failed before. Neither depends on the steps that follow (the TLS files, the
  persistence), for any handle and any file service.
\<close>

theorem C7_side_effects_inline:
  assumes "readAggregate tx () h = Inr settings"
  shows "(SetSnapshotIntervalCall v \<in> set (snd (fst (run tx (updateSettings handler payload) h)))
            \<longleftrightarrow> settingsUpdatePayload.SnapshotInterval payload = Some v
                \<and> v \<noteq> SnapshotInterval settings
                \<and> \<not> helmStepFails handler payload settings)
       \<and> (SetUserSessionDurationCall d \<in> set (snd (fst (run tx (updateSettings handler payload) h)))
            \<longleftrightarrow> (\<exists>t. settingsUpdatePayload.UserSessionTimeout payload = Some t
                     \<and> d = ParseDuration handler t)
                \<and> \<not> helmStepFails handler payload settings
                \<and> \<not> snapshotStepFails handler payload settings)"
proof -
  from mergeSettings_calls[of handler payload settings] obtain tlsCalls where
    t: "tlsCalls = [GetPathForTLSFileCall] \<or> tlsCalls = [DeleteTLSFilesCall]" and
    c: "snd (mergeSettings handler payload settings) =
       (case helmCheck handler payload settings of
          None \<Rightarrow> [] | Some url \<Rightarrow> [ValidateHelmRepositoryURLCall url])
       @ (if helmStepFails handler payload settings then []
          else (case settingsUpdatePayload.SnapshotInterval payload of
                  None \<Rightarrow> []
                | Some v \<Rightarrow>
                    if v \<noteq> SnapshotInterval settings then [SetSnapshotIntervalCall v] else [])
               @ (if snapshotStepFails handler payload settings then []
                  else (case settingsUpdatePayload.UserSessionTimeout payload of
                          None \<Rightarrow> []
                        | Some v \<Rightarrow> [SetUserSessionDurationCall (ParseDuration handler v)])
                       @ tlsCalls))"
    by blast
  have r: "snd (fst (run tx (updateSettings handler payload) h))
             = snd (mergeSettings handler payload settings)"
    using assms by (rule calls_run_updateSettings)
  show ?thesis
    unfolding r c using t
    by (cases "settingsUpdatePayload.UserSessionTimeout payload";
        cases "settingsUpdatePayload.SnapshotInterval payload") auto
qed

lemma sessionPayload_tls_run:
  "run (directHandle (Opaque 0)) (updateSettings tlsFailingHandler sessionPayload) exampleStore
     = ((Inl (HandlerError InternalServerError ''Unable to remove TLS files from disk'' (Some (Opaque 1))),
         [SetUserSessionDurationCall 300000000000, DeleteTLSFilesCall]),
        exampleStore)"
  by (simp add: run_updateSettings directHandle_def merge_defs example_defs
      tlsFailingHandler_def sessionPayload_def)

lemma sessionPayload_write_run:
  "run failingWriteHandle (updateSettings exampleHandler sessionPayload) exampleStore
     = ((Inl (HandlerError InternalServerError
                ''Unable to persist settings changes inside the database'' (Some (Opaque 2))),
         [SetUserSessionDurationCall 300000000000, DeleteTLSFilesCall]),
        exampleStore)"
  by (simp add: run_updateSettings failingWriteHandle_def directHandle_def merge_defs example_defs
      sessionPayload_def)

lemma failingWriteHandle_read:
  "readAggregate failingWriteHandle () exampleStore = Inr exampleSettings"
  by (simp add: failingWriteHandle_def directHandle_def exampleStore_def)

theorem C7_side_effects_inline_witness:
  "readAggregate failingWriteHandle () exampleStore = Inr exampleSettings
   \<and> isl (fst (fst (run failingWriteHandle (updateSettings exampleHandler sessionPayload)
                      exampleStore)))
   \<and> SetUserSessionDurationCall 300000000000
       \<in> set (snd (fst (run failingWriteHandle
                          (updateSettings exampleHandler sessionPayload) exampleStore)))
   \<and> (\<exists>t. settingsUpdatePayload.UserSessionTimeout sessionPayload = Some t
          \<and> 300000000000 = ParseDuration exampleHandler t)
   \<and> \<not> helmStepFails exampleHandler sessionPayload exampleSettings
   \<and> \<not> snapshotStepFails exampleHandler sessionPayload exampleSettings"
proof -
  have failed: "isl (fst (fst (run failingWriteHandle (updateSettings exampleHandler sessionPayload)
                      exampleStore)))"
    by (simp add: sessionPayload_write_run)
  have called: "SetUserSessionDurationCall 300000000000
       \<in> set (snd (fst (run failingWriteHandle
                          (updateSettings exampleHandler sessionPayload) exampleStore)))"
    by (simp add: sessionPayload_write_run)
  have "SetUserSessionDurationCall 300000000000
       \<in> set (snd (fst (run failingWriteHandle
                          (updateSettings exampleHandler sessionPayload) exampleStore)))
     \<longleftrightarrow> (\<exists>t. settingsUpdatePayload.UserSessionTimeout sessionPayload = Some t
              \<and> 300000000000 = ParseDuration exampleHandler t)
         \<and> \<not> helmStepFails exampleHandler sessionPayload exampleSettings
         \<and> \<not> snapshotStepFails exampleHandler sessionPayload exampleSettings"
    using C7_side_effects_inline [OF failingWriteHandle_read] by (rule conjunct2)
  from this called have "(\<exists>t. settingsUpdatePayload.UserSessionTimeout sessionPayload = Some t
              \<and> 300000000000 = ParseDuration exampleHandler t)
         \<and> \<not> helmStepFails exampleHandler sessionPayload exampleSettings
         \<and> \<not> snapshotStepFails exampleHandler sessionPayload exampleSettings"
    by (rule iffD1)
  with failingWriteHandle_read failed called show ?thesis by (intro conjI) simp_all
qed

text \<open>
  C7, as stated, fails on the code. With a payload that sets the session timeout, the
  session-duration subsystem is reconfigured (line 266) although the update as a whole
  fails afterwards: once because the TLS files cannot be removed (line 306), once because
  the settings cannot be persisted (line 275).
\<close>

theorem C7_counterexample:
  "isl (fst (fst (run (directHandle (Opaque 0)) (updateSettings tlsFailingHandler sessionPayload)
                    exampleStore)))
   \<and> SetUserSessionDurationCall 300000000000
       \<in> set (snd (fst (run (directHandle (Opaque 0))
                          (updateSettings tlsFailingHandler sessionPayload) exampleStore)))
   \<and> isl (fst (fst (run failingWriteHandle (updateSettings exampleHandler sessionPayload)
                      exampleStore)))
   \<and> SetUserSessionDurationCall 300000000000
       \<in> set (snd (fst (run failingWriteHandle
                          (updateSettings exampleHandler sessionPayload) exampleStore)))"
  by (simp add: sessionPayload_tls_run sessionPayload_write_run)


lemma mergeHelm_fail:
  "helmCheck handler payload settings = Some url \<Longrightarrow>
   ValidateHelmRepositoryURL handler url = Some err \<Longrightarrow>
   mergeHelm handler payload settings =
     (Inl (HandlerError BadRequest
             ''Invalid Helm repository URL. Must correspond to a valid URL format'' (Some err)),
      [ValidateHelmRepositoryURLCall url])"
  by (auto simp: mergeHelm_def helmCheck_def Let_def split: option.splits if_splits)

lemma mergeSettings_helm_fail:
  assumes "helmCheck handler payload settings = Some url"
    and "ValidateHelmRepositoryURL handler url = Some err"
  shows "mergeSettings handler payload settings =
     (Inl (HandlerError BadRequest
             ''Invalid Helm repository URL. Must correspond to a valid URL format'' (Some err)),
      [ValidateHelmRepositoryURLCall url])"
proof -
  have "helmCheck handler (suppressDemo handler payload)
          (mergeHead (suppressDemo handler payload) settings) = Some url"
    using assms(1) by (simp add: helmCheck_step)
  from mergeHelm_fail[OF this assms(2)] show ?thesis
    by (simp add: mergeSettings_def Let_def)
qed

lemma helmCheck_Some:
  "helmCheck handler payload settings = Some u \<longleftrightarrow>
     settingsUpdatePayload.HelmRepositoryURL payload = Some u \<and> u \<noteq> []
     \<and> TrimSuffix (ToLower handler u) ''/'' \<noteq> HelmRepositoryURL settings
     \<and> TrimSuffix (ToLower handler u) ''/'' \<noteq> DefaultHelmRepositoryURL handler"
  by (auto simp: helmCheck_def split: option.splits)

text \<open>
  C9. The Helm repository check \<^verbatim>\<open>ValidateHelmRepositoryURL\<close> is invoked during the
  merge, on the payload's URL, if and only if the payload supplies a non-empty
  \<^verbatim>\<open>HelmRepositoryURL\<close> whose value --- as the merge stores it, lower-cased and
  without a trailing slash (lines 174-175) --- changes the stored value and differs from
  the default repository URL. When the check fails, the update returns the bad-request
  error wrapping the check's error, nothing is written to the store and the handle's state
  is unchanged.
\<close>

theorem C9_helm_check_gated:
  assumes "readAggregate tx () h = Inr settings"
  shows "(ValidateHelmRepositoryURLCall u
            \<in> set (snd (fst (run tx (updateSettings handler payload) h)))
          \<longleftrightarrow> settingsUpdatePayload.HelmRepositoryURL payload = Some u \<and> u \<noteq> []
              \<and> TrimSuffix (ToLower handler u) ''/'' \<noteq> HelmRepositoryURL settings
              \<and> TrimSuffix (ToLower handler u) ''/'' \<noteq> DefaultHelmRepositoryURL handler)
       \<and> (\<forall>url err.
             settingsUpdatePayload.HelmRepositoryURL payload = Some url \<and> url \<noteq> []
             \<and> TrimSuffix (ToLower handler url) ''/'' \<noteq> HelmRepositoryURL settings
             \<and> TrimSuffix (ToLower handler url) ''/'' \<noteq> DefaultHelmRepositoryURL handler
             \<and> ValidateHelmRepositoryURL handler url = Some err
             \<longrightarrow> fst (fst (run tx (updateSettings handler payload) h))
                   = Inl (HandlerError BadRequest
                            ''Invalid Helm repository URL. Must correspond to a valid URL format''
                            (Some err))
                 \<and> writesOf tx (updateSettings handler payload) h = []
                 \<and> snd (run tx (updateSettings handler payload) h) = h)"
proof (intro conjI allI impI)
  from mergeSettings_calls[of handler payload settings] obtain tlsCalls where
    t: "tlsCalls = [GetPathForTLSFileCall] \<or> tlsCalls = [DeleteTLSFilesCall]" and
    c: "snd (mergeSettings handler payload settings) =
       (case helmCheck handler payload settings of
          None \<Rightarrow> [] | Some url \<Rightarrow> [ValidateHelmRepositoryURLCall url])
       @ (if helmStepFails handler payload settings then []
          else (case settingsUpdatePayload.SnapshotInterval payload of
                  None \<Rightarrow> []
                | Some v \<Rightarrow>
                    if v \<noteq> SnapshotInterval settings then [SetSnapshotIntervalCall v] else [])
               @ (if snapshotStepFails handler payload settings then []
                  else (case settingsUpdatePayload.UserSessionTimeout payload of
                          None \<Rightarrow> []
                        | Some v \<Rightarrow> [SetUserSessionDurationCall (ParseDuration handler v)])
                       @ tlsCalls))"
    by blast
  have r: "snd (fst (run tx (updateSettings handler payload) h))
             = snd (mergeSettings handler payload settings)"
    using assms by (rule calls_run_updateSettings)
  have "ValidateHelmRepositoryURLCall u \<in> set (snd (mergeSettings handler payload settings))
          \<longleftrightarrow> helmCheck handler payload settings = Some u"
    unfolding c using t
    by (cases "helmCheck handler payload settings";
        cases "settingsUpdatePayload.UserSessionTimeout payload";
        cases "settingsUpdatePayload.SnapshotInterval payload") auto
  then show "ValidateHelmRepositoryURLCall u
            \<in> set (snd (fst (run tx (updateSettings handler payload) h)))
          \<longleftrightarrow> settingsUpdatePayload.HelmRepositoryURL payload = Some u \<and> u \<noteq> []
              \<and> TrimSuffix (ToLower handler u) ''/'' \<noteq> HelmRepositoryURL settings
              \<and> TrimSuffix (ToLower handler u) ''/'' \<noteq> DefaultHelmRepositoryURL handler"
    by (simp add: r helmCheck_Some)
next
  fix url err
  assume a: "settingsUpdatePayload.HelmRepositoryURL payload = Some url \<and> url \<noteq> []
             \<and> TrimSuffix (ToLower handler url) ''/'' \<noteq> HelmRepositoryURL settings
             \<and> TrimSuffix (ToLower handler url) ''/'' \<noteq> DefaultHelmRepositoryURL handler
             \<and> ValidateHelmRepositoryURL handler url = Some err"
  then have "helmCheck handler payload settings = Some url" by (simp add: helmCheck_Some)
  from mergeSettings_helm_fail[OF this] a
  have m: "mergeSettings handler payload settings =
     (Inl (HandlerError BadRequest
             ''Invalid Helm repository URL. Must correspond to a valid URL format'' (Some err)),
      [ValidateHelmRepositoryURLCall url])"
    by simp
  show "fst (fst (run tx (updateSettings handler payload) h))
                   = Inl (HandlerError BadRequest
                            ''Invalid Helm repository URL. Must correspond to a valid URL format''
                            (Some err))"
    using assms m by (simp add: run_updateSettings)
  show "writesOf tx (updateSettings handler payload) h = []"
    using assms m by (simp add: writesOf_updateSettings)
  show "snd (run tx (updateSettings handler payload) h) = h"
    using assms m by (simp add: run_updateSettings)
qed

lemma helmPayload_run:
  "run (directHandle (Opaque 0)) (updateSettings helmFailingHandler helmPayload) exampleStore
     = ((Inl (HandlerError BadRequest
                ''Invalid Helm repository URL. Must correspond to a valid URL format''
                (Some (Opaque 3))),
         [ValidateHelmRepositoryURLCall ''http://n/c/'']),
        exampleStore)"
  by (simp add: run_updateSettings directHandle_def merge_defs example_defs
      helmFailingHandler_def helmPayload_def asciiToLower_def TrimSuffix_def suffix_to_prefix)

lemma helmPayload_facts:
  "settingsUpdatePayload.HelmRepositoryURL helmPayload = Some ''http://n/c/''"
  "TrimSuffix (ToLower helmFailingHandler ''http://n/c/'') ''/'' = ''http://n/c''"
  "HelmRepositoryURL exampleSettings = ''http://h/c''"
  "DefaultHelmRepositoryURL helmFailingHandler = ''http://d/c''"
  "ValidateHelmRepositoryURL helmFailingHandler ''http://n/c/'' = Some (Opaque 3)"
  by (simp_all add: example_defs helmFailingHandler_def helmPayload_def asciiToLower_def
      TrimSuffix_def suffix_to_prefix)

theorem C9_helm_check_gated_witness:
  "readAggregate (directHandle (Opaque 0)) () exampleStore = Inr exampleSettings
   \<and> settingsUpdatePayload.HelmRepositoryURL helmPayload = Some ''http://n/c/''
   \<and> ValidateHelmRepositoryURL helmFailingHandler ''http://n/c/'' = Some (Opaque 3)
   \<and> ValidateHelmRepositoryURLCall ''http://n/c/''
       \<in> set (snd (fst (run (directHandle (Opaque 0))
                          (updateSettings helmFailingHandler helmPayload) exampleStore)))
   \<and> fst (fst (run (directHandle (Opaque 0)) (updateSettings helmFailingHandler helmPayload)
                  exampleStore))
       = Inl (HandlerError BadRequest
                ''Invalid Helm repository URL. Must correspond to a valid URL format''
                (Some (Opaque 3)))
   \<and> writesOf (directHandle (Opaque 0)) (updateSettings helmFailingHandler helmPayload)
        exampleStore = []
   \<and> snd (run (directHandle (Opaque 0)) (updateSettings helmFailingHandler helmPayload)
             exampleStore) = exampleStore"
proof -
  note th = C9_helm_check_gated [OF exampleStore_read, of _ helmFailingHandler helmPayload]
  have cond: "settingsUpdatePayload.HelmRepositoryURL helmPayload = Some ''http://n/c/''
      \<and> ''http://n/c/'' \<noteq> []
      \<and> TrimSuffix (ToLower helmFailingHandler ''http://n/c/'') ''/'' \<noteq> HelmRepositoryURL exampleSettings
      \<and> TrimSuffix (ToLower helmFailingHandler ''http://n/c/'') ''/''
          \<noteq> DefaultHelmRepositoryURL helmFailingHandler
      \<and> ValidateHelmRepositoryURL helmFailingHandler ''http://n/c/'' = Some (Opaque 3)"
    by (simp add: helmPayload_facts)
  from th[THEN conjunct2, rule_format, OF cond] th[THEN conjunct1, of "''http://n/c/''"] cond
    exampleStore_read
  show ?thesis by simp
qed

section \<open>The two executors\<close>

lemma txHandle_read:
  "readAggregate (txHandle nf) k (b, pend) = readAggregate (directHandle nf) k (b ++ pend)"
  by (simp add: txHandle_def directHandle_def map_add_def split: option.splits)

lemma txHandle_write:
  "writeAggregate (txHandle nf) k v (b, pend) = (None, (b, pend(k \<mapsto> v)))"
  by (simp add: txHandle_def)

lemma directHandle_write:
  "writeAggregate (directHandle nf) k v s = (None, s(k \<mapsto> v))"
  by (simp add: directHandle_def)

lemma run_txHandle_sim:
  "run (txHandle nf) p (b, pend) = (r, (b', pend'))
     \<Longrightarrow> b' = b \<and> run (directHandle nf) p (b ++ pend) = (r, b ++ pend')"
proof (induction p arbitrary: pend)
  case (Return x)
  then show ?case by simp
next
  case (Read k f)
  from Read.prems
  have "run (txHandle nf) (f (readAggregate (directHandle nf) k (b ++ pend))) (b, pend)
          = (r, (b', pend'))"
    by (simp add: txHandle_read)
  from Read.IH[OF rangeI this] show ?case by simp
next
  case (Write k v f)
  from Write.prems have "run (txHandle nf) (f None) (b, pend(k \<mapsto> v)) = (r, (b', pend'))"
    by (simp add: txHandle_write)
  moreover have "run (directHandle nf) (Write k v f) (b ++ pend)
                   = run (directHandle nf) (f None) (b ++ pend(k \<mapsto> v))"
    by (simp add: directHandle_write)
  ultimately show ?case
    using Write.IH[OF rangeI, of None "pend(k \<mapsto> v)"] by (simp only:)
qed

lemma UpdateTx_direct:
  "fst (UpdateTx nf errOf body s) = fst (run (directHandle nf) body s)
   \<and> snd (UpdateTx nf errOf body s)
       = (case errOf (fst (run (directHandle nf) body s)) of
            None \<Rightarrow> snd (run (directHandle nf) body s)
          | Some err \<Rightarrow> s)"
proof -
  obtain r b' pend' where t: "run (txHandle nf) body (s, Map.empty) = (r, (b', pend'))"
    by (metis surj_pair)
  from run_txHandle_sim[OF t] have "b' = s" and "run (directHandle nf) body s = (r, s ++ pend')"
    by simp_all
  then show ?thesis
    by (simp add: UpdateTx_def t split: option.splits)
qed

text \<open>
  C2. For any body written against the store interface, any starting store and any reading
  of the body's result as an error: the direct executor (\<open>noTx\<close> set) and the
  transactional executor (\<open>noTx\<close> not set) run the same body and return the same
  result, and when that result is a success they leave the same store.
\<close>

theorem C2_executor_equivalence:
  "fst (execute notFound True errOf body s) = fst (execute notFound False errOf body s)
   \<and> (errOf (fst (execute notFound False errOf body s)) = None
        \<longrightarrow> snd (execute notFound True errOf body s) = snd (execute notFound False errOf body s))"
  by (simp add: execute_def UpdateTx_direct)

lemma brandingPayload_direct:
  "fst (fst (run (directHandle (Opaque 0)) (updateSettings exampleHandler brandingPayload)
               exampleStore))
     = Inr (exampleSettings\<lparr>LogoURL := ''http://l/x.png'', TemplatesURL := ''http://t/t.json'',
                            EnableTelemetry := True\<rparr>)
   \<and> snd (run (directHandle (Opaque 0)) (updateSettings exampleHandler brandingPayload)
            exampleStore)
     = [() \<mapsto> exampleSettings\<lparr>LogoURL := ''http://l/x.png'', TemplatesURL := ''http://t/t.json'',
                            EnableTelemetry := True\<rparr>]"
  by (simp add: run_updateSettings directHandle_def merge_defs example_defs brandingPayload_def)

theorem C2_executor_equivalence_witness:
  "settingsErr (fst (execute (Opaque 0) False settingsErr
                       (updateSettings exampleHandler brandingPayload) exampleStore)) = None
   \<and> snd (execute (Opaque 0) False settingsErr
            (updateSettings exampleHandler brandingPayload) exampleStore)
     = [() \<mapsto> exampleSettings\<lparr>LogoURL := ''http://l/x.png'', TemplatesURL := ''http://t/t.json'',
                            EnableTelemetry := True\<rparr>]"
proof -
  note th = C2_executor_equivalence [of "Opaque 0" settingsErr
      "updateSettings exampleHandler brandingPayload" exampleStore]
  have d: "execute (Opaque 0) True settingsErr (updateSettings exampleHandler brandingPayload)
             exampleStore
           = run (directHandle (Opaque 0)) (updateSettings exampleHandler brandingPayload)
               exampleStore"
    by (simp add: execute_def)
  from th[THEN conjunct1, symmetric] have
    e: "settingsErr (fst (execute (Opaque 0) False settingsErr
                       (updateSettings exampleHandler brandingPayload) exampleStore)) = None"
    by (simp add: d brandingPayload_direct settingsErr_def)
  from th[THEN conjunct2, rule_format, OF e] show ?thesis
    using e by (simp add: d brandingPayload_direct)
qed

section \<open>Password update\<close>

text \<open>
  C10. When the password update succeeds (the handler returns no error), it has read one
  user record and issued exactly one write, under that record's identifier, of that record
  with \<^verbatim>\<open>Password\<close> set to the hash of the new password and
  \<^verbatim>\<open>TokenIssueAt\<close> set to the clock time; the identifier and every other field
  are those of the record read, and the final state of the handle is the result of that
  write.
\<close>

theorem C10_password_update_frame:
  assumes "run tx (userUpdatePassword handler) h = (None, h')"
  shows "\<exists>userID payload user hash written.
           RouteUserID handler = Inr userID
         \<and> DecodedPayload handler = Inr payload
         \<and> readAggregate tx userID h = Inr user
         \<and> Hash handler (NewPassword payload) = Inr hash
         \<and> written = user\<lparr>User.Password := hash, TokenIssueAt := Now handler\<rparr>
         \<and> TokenIssueAt written = Now handler
         \<and> User.Password written = hash
         \<and> User.ID written = User.ID user
         \<and> UserOther written = UserOther user
         \<and> writesOf tx (userUpdatePassword handler) h = [(User.ID user, written, None)]
         \<and> writeAggregate tx (User.ID user) written h = (None, h')"
  using assms
  by (auto simp: userUpdatePassword_def Let_def
      split: sum.splits if_splits option.splits prod.splits)

lemma exampleUsers_run:
  "run (directHandle (Opaque 0)) (userUpdatePassword exampleUsersHandler) exampleUsers
     = (None, [1 \<mapsto> exampleUser\<lparr>User.Password := ''h:new'', TokenIssueAt := 1700000000\<rparr>])"
  by (simp add: userUpdatePassword_def exampleUsersHandler_def exampleUsers_def exampleUser_def
      directHandle_def)

theorem C10_password_update_frame_witness:
  "run (directHandle (Opaque 0)) (userUpdatePassword exampleUsersHandler) exampleUsers
     = (None, [1 \<mapsto> exampleUser\<lparr>User.Password := ''h:new'', TokenIssueAt := 1700000000\<rparr>])
   \<and> writesOf (directHandle (Opaque 0)) (userUpdatePassword exampleUsersHandler) exampleUsers
     = [(1, exampleUser\<lparr>User.Password := ''h:new'', TokenIssueAt := 1700000000\<rparr>, None)]"
proof -
  from C10_password_update_frame [OF exampleUsers_run]
  obtain userID payload user hash written where
    u: "RouteUserID exampleUsersHandler = Inr userID" and
    p: "DecodedPayload exampleUsersHandler = Inr payload" and
    r: "readAggregate (directHandle (Opaque (0::nat))) userID exampleUsers = Inr user" and
    h: "Hash exampleUsersHandler (NewPassword payload) = Inr hash" and
    w: "written = user\<lparr>User.Password := hash, TokenIssueAt := Now exampleUsersHandler\<rparr>" and
    ws: "writesOf (directHandle (Opaque 0)) (userUpdatePassword exampleUsersHandler) exampleUsers
           = [(User.ID user, written, None)]"
    by blast
  from u have "userID = 1" by (simp add: exampleUsersHandler_def)
  with r have "user = exampleUser" by (simp add: directHandle_def exampleUsers_def)
  moreover from p h have "hash = ''h:new''" by (auto simp: exampleUsersHandler_def)
  ultimately have "writesOf (directHandle (Opaque 0)) (userUpdatePassword exampleUsersHandler)
      exampleUsers
     = [(1, exampleUser\<lparr>User.Password := ''h:new'', TokenIssueAt := 1700000000\<rparr>, None)]"
    using ws w by (simp add: exampleUsersHandler_def exampleUser_def)
  with exampleUsers_run show ?thesis by (rule conjI)
qed

end
